theory Spec2Isabelle
  imports Main
begin

section \<open>Rows of the content store\<close>

text \<open>
  Identifiers are the strings the client sees (\<open>id: string\<close> in the TypeScript
  interfaces, \<open>uuid\<close> in the migrations). A nullable column is an \<open>option\<close>.
\<close>

type_synonym uuid = string

record question =
  q_id :: uuid
  q_title :: string
  q_description :: string
  q_user_id :: uuid
  q_accepted_answer_id :: "uuid option"
  q_is_answered :: bool
  q_votes_count :: int
  q_answers_count :: int
  q_views_count :: int
  q_created_at :: string

record answer =
  a_id :: uuid
  a_question_id :: uuid
  a_user_id :: uuid
  a_content :: string
  a_is_accepted :: bool
  a_votes_count :: int
  a_created_at :: string

record comment =
  c_id :: uuid
  c_content :: string
  c_user_id :: uuid
  c_question_id :: "uuid option"
  c_answer_id :: "uuid option"
  c_created_at :: string
  c_updated_at :: string

record vote =
  v_id :: uuid
  v_user_id :: uuid
  v_question_id :: "uuid option"
  v_answer_id :: "uuid option"
  v_vote_type :: int

text \<open>
  A notification row holds the six columns the trigger functions write; the values come
  from PL/pgSQL variables and expressions, which may be NULL. The remaining columns of the
  table (\<open>id\<close>, \<open>read\<close>, \<open>created_at\<close>) take the defaults of the table.
\<close>

record notification =
  n_user_id :: "uuid option"
  n_type :: "string option"
  n_title :: "string option"
  n_message :: "string option"
  n_question_id :: "uuid option"
  n_answer_id :: "uuid option"

record database =
  questions :: "question list"
  answers :: "answer list"
  comments :: "comment list"
  votes :: "vote list"
  notifications :: "notification list"

section \<open>SQL expressions\<close>

text \<open>
  SQL comparisons are three-valued: a comparison with NULL is NULL (\<open>None\<close>), and an
  \<open>IF\<close> whose condition is NULL does not run its branch.
\<close>

definition sql_ne :: "'a option \<Rightarrow> 'a option \<Rightarrow> bool option" where
  "sql_ne x y = (case x of None \<Rightarrow> None
                 | Some a \<Rightarrow> (case y of None \<Rightarrow> None | Some b \<Rightarrow> Some (a \<noteq> b)))"

definition sql_eq :: "'a option \<Rightarrow> 'a option \<Rightarrow> bool option" where
  "sql_eq x y = (case x of None \<Rightarrow> None
                 | Some a \<Rightarrow> (case y of None \<Rightarrow> None | Some b \<Rightarrow> Some (a = b)))"

definition sql_and :: "bool option \<Rightarrow> bool option \<Rightarrow> bool option" where
  "sql_and x y = (if x = Some False \<or> y = Some False then Some False
                  else if x = Some True \<and> y = Some True then Some True else None)"

definition sql_or :: "bool option \<Rightarrow> bool option \<Rightarrow> bool option" where
  "sql_or x y = (if x = Some True \<or> y = Some True then Some True
                 else if x = Some False \<and> y = Some False then Some False else None)"

definition is_null :: "'a option \<Rightarrow> bool option" where
  "is_null x = Some (x = None)"

definition is_not_null :: "'a option \<Rightarrow> bool option" where
  "is_not_null x = Some (x \<noteq> None)"

definition sql_concat :: "string option \<Rightarrow> string option \<Rightarrow> string option" where
  "sql_concat x y = (case x of None \<Rightarrow> None
                     | Some a \<Rightarrow> (case y of None \<Rightarrow> None | Some b \<Rightarrow> Some (a @ b)))"

definition branch_taken :: "bool option \<Rightarrow> bool" where
  "branch_taken c = (c = Some True)"

section \<open>Queries of the trigger functions\<close>

text \<open>\<open>SELECT ... INTO\<close> keeps the first row found; with no row the targets are NULL.\<close>

definition first_row :: "'a list \<Rightarrow> 'a option" where
  "first_row rows = (case rows of [] \<Rightarrow> None | r # _ \<Rightarrow> Some r)"

definition select_question :: "database \<Rightarrow> uuid \<Rightarrow> (uuid \<times> string) option" where
  \<comment> \<open>\<open>SELECT user_id, title FROM questions WHERE id = k\<close>\<close>
  "select_question db k =
     first_row [(q_user_id q, q_title q). q \<leftarrow> questions db, q_id q = k]"

definition select_answer_author :: "database \<Rightarrow> uuid \<Rightarrow> uuid option" where
  \<comment> \<open>\<open>SELECT user_id FROM answers WHERE id = k\<close>\<close>
  "select_answer_author db k = first_row [a_user_id a. a \<leftarrow> answers db, a_id a = k]"

definition select_answer_join :: "database \<Rightarrow> uuid \<Rightarrow> (uuid \<times> string) option" where
  \<comment> \<open>\<open>SELECT a.user_id, q.title FROM answers a JOIN questions q ON q.id = a.question_id
      WHERE a.id = k\<close>\<close>
  "select_answer_join db k =
     first_row [(a_user_id a, q_title q).
                a \<leftarrow> answers db, q \<leftarrow> questions db, q_id q = a_question_id a, a_id a = k]"

section \<open>Writing a notification\<close>

datatype error =
    Notification_rejected
  | Comments_insert_policy
  | Comments_has_target
  | Comments_pkey

text \<open>
  The declaration of the \<open>notifications\<close> table is not among the migrations at hand, so
  whether the table takes a row is a parameter \<open>chk\<close>: the \<open>INSERT\<close> raises when it does
  not.
\<close>

definition insert_notification ::
  "(notification \<Rightarrow> bool) \<Rightarrow> notification \<Rightarrow> database \<Rightarrow> error + database" where
  "insert_notification chk n db =
     (if chk n then Inr (db\<lparr>notifications := notifications db @ [n]\<rparr>)
      else Inl Notification_rejected)"

section \<open>The trigger functions\<close>

definition answer_notification :: "database \<Rightarrow> answer \<Rightarrow> notification" where
  \<open>answer_notification db new =
     (let sel = select_question db (a_question_id new);
          question_owner_id = map_option fst sel;
          question_title = map_option snd sel
      in \<lparr>n_user_id = question_owner_id,
          n_type = Some ''answer'',
          n_title = Some ''New Answer'',
          n_message = sql_concat (sql_concat (Some ''Someone answered your question: "'')
                        question_title) (Some ''"''),
          n_question_id = Some (a_question_id new),
          n_answer_id = Some (a_id new)\<rparr>)\<close>

definition create_answer_notification ::
  "(notification \<Rightarrow> bool) \<Rightarrow> database \<Rightarrow> answer \<Rightarrow> error + database \<times> answer" where
  "create_answer_notification chk db new =
     (let question_owner_id = map_option fst (select_question db (a_question_id new))
      in if branch_taken (sql_ne question_owner_id (Some (a_user_id new))) then
           (case insert_notification chk (answer_notification db new) db of
              Inl e \<Rightarrow> Inl e
            | Inr db' \<Rightarrow> Inr (db', new))
         else Inr (db, new))"

definition accept_notification :: "database \<Rightarrow> question \<Rightarrow> notification" where
  \<open>accept_notification db new =
     \<lparr>n_user_id = Option.bind (q_accepted_answer_id new) (select_answer_author db),
      n_type = Some ''accepted'',
      n_title = Some ''Answer Accepted'',
      n_message = sql_concat (sql_concat (Some ''Your answer was accepted for: "'')
                    (Some (q_title new))) (Some ''"''),
      n_question_id = Some (q_id new),
      n_answer_id = q_accepted_answer_id new\<rparr>\<close>

definition accepted_changed :: "question \<Rightarrow> question \<Rightarrow> bool option" where
  \<comment> \<open>\<open>NEW.accepted_answer_id IS NOT NULL AND (OLD.accepted_answer_id IS NULL OR
      OLD.accepted_answer_id != NEW.accepted_answer_id)\<close>\<close>
  "accepted_changed old new =
     sql_and (is_not_null (q_accepted_answer_id new))
       (sql_or (is_null (q_accepted_answer_id old))
          (sql_ne (q_accepted_answer_id old) (q_accepted_answer_id new)))"

definition create_accept_notification ::
  "(notification \<Rightarrow> bool) \<Rightarrow> database \<Rightarrow> question \<Rightarrow> question \<Rightarrow> error + database \<times> question"
  where
  "create_accept_notification chk db old new =
     (if branch_taken (accepted_changed old new) then
        (let answer_author_id =
               Option.bind (q_accepted_answer_id new) (select_answer_author db)
         in if branch_taken (sql_ne answer_author_id (Some (q_user_id new))) then
              (case insert_notification chk (accept_notification db new) db of
                 Inl e \<Rightarrow> Inl e
               | Inr db' \<Rightarrow> Inr (db', new))
            else Inr (db, new))
      else Inr (db, new))"

text \<open>
  The vote and comment functions fill three variables from whichever target column is
  set, the question first: the owner, the title, and a text naming the kind of target.
\<close>

definition vote_content ::
  "database \<Rightarrow> vote \<Rightarrow> uuid option \<times> string option \<times> string option" where
  "vote_content db new =
     (case v_question_id new of
        Some qid \<Rightarrow>
          (let sel = select_question db qid
           in (map_option fst sel, map_option snd sel, Some ''question''))
      | None \<Rightarrow>
          (case v_answer_id new of
             Some aid \<Rightarrow>
               (let sel = select_answer_join db aid
                in (map_option fst sel, map_option snd sel, Some ''answer''))
           | None \<Rightarrow> (None, None, None)))"

definition vote_notification :: "database \<Rightarrow> vote \<Rightarrow> notification" where
  \<open>vote_notification db new =
     (case vote_content db new of (content_owner_id, content_title, vote_target) \<Rightarrow>
        \<lparr>n_user_id = content_owner_id,
         n_type = Some ''vote'',
         n_title = Some ''Upvoted'',
         n_message = sql_concat (sql_concat (sql_concat (sql_concat
                       (Some ''Someone upvoted your '') vote_target) (Some '' on: "''))
                       content_title) (Some ''"''),
         n_question_id = (if v_question_id new \<noteq> None then v_question_id new else None),
         n_answer_id = (if v_answer_id new \<noteq> None then v_answer_id new else None)\<rparr>)\<close>

definition create_vote_notification ::
  "(notification \<Rightarrow> bool) \<Rightarrow> database \<Rightarrow> vote \<Rightarrow> error + database \<times> vote" where
  "create_vote_notification chk db new =
     (if v_vote_type new = 1 then
        (let content_owner_id = fst (vote_content db new)
         in if branch_taken (sql_and (is_not_null content_owner_id)
                               (sql_ne content_owner_id (Some (v_user_id new)))) then
              (case insert_notification chk (vote_notification db new) db of
                 Inl e \<Rightarrow> Inl e
               | Inr db' \<Rightarrow> Inr (db', new))
            else Inr (db, new))
      else Inr (db, new))"

definition comment_target ::
  "database \<Rightarrow> comment \<Rightarrow> uuid option \<times> string option \<times> string option" where
  "comment_target db new =
     (case c_question_id new of
        Some qid \<Rightarrow>
          (let sel = select_question db qid
           in (map_option fst sel, map_option snd sel, Some ''comment_question''))
      | None \<Rightarrow>
          (case c_answer_id new of
             Some aid \<Rightarrow>
               (let sel = select_answer_join db aid
                in (map_option fst sel, map_option snd sel, Some ''comment_answer''))
           | None \<Rightarrow> (None, None, None)))"

definition comment_notification :: "database \<Rightarrow> comment \<Rightarrow> notification" where
  \<open>comment_notification db new =
     (case comment_target db new of (target_owner_id, question_title, notification_type) \<Rightarrow>
        \<lparr>n_user_id = target_owner_id,
         n_type = notification_type,
         n_title = Some ''New Comment'',
         n_message = sql_concat (sql_concat (sql_concat (sql_concat
                       (Some ''Someone commented on your '')
                       (Some (if c_question_id new \<noteq> None then ''question'' else ''answer'')))
                       (Some '': "'')) question_title) (Some ''"''),
         n_question_id = (if c_question_id new \<noteq> None then c_question_id new else None),
         n_answer_id = (if c_answer_id new \<noteq> None then c_answer_id new else None)\<rparr>)\<close>

definition create_comment_notification ::
  "(notification \<Rightarrow> bool) \<Rightarrow> database \<Rightarrow> comment \<Rightarrow> error + database \<times> comment" where
  "create_comment_notification chk db new =
     (let target_owner_id = fst (comment_target db new)
      in if branch_taken (sql_and (is_not_null target_owner_id)
                            (sql_ne target_owner_id (Some (c_user_id new)))) then
           (case insert_notification chk (comment_notification db new) db of
              Inl e \<Rightarrow> Inl e
            | Inr db' \<Rightarrow> Inr (db', new))
         else Inr (db, new))"

section \<open>The statements that fire the triggers\<close>

text \<open>
  Each trigger is \<open>AFTER INSERT\<close> or \<open>AFTER UPDATE ... FOR EACH ROW\<close>: the function
  runs once per written row, on the table as the statement leaves it, and its return
  value is ignored. None of the functions has an \<open>EXCEPTION\<close> block, so an error raised
  in one aborts the statement. A statement returns the error the client receives, if
  any, and the database it leaves: on an error, the one it started from.
\<close>

definition insert_answer ::
  "(notification \<Rightarrow> bool) \<Rightarrow> answer \<Rightarrow> database \<Rightarrow> error option \<times> database" where
  "insert_answer chk new db =
     (case create_answer_notification chk (db\<lparr>answers := answers db @ [new]\<rparr>) new of
        Inl e \<Rightarrow> (Some e, db)
      | Inr (db', _) \<Rightarrow> (None, db'))"

definition insert_vote ::
  "(notification \<Rightarrow> bool) \<Rightarrow> vote \<Rightarrow> database \<Rightarrow> error option \<times> database" where
  "insert_vote chk new db =
     (case create_vote_notification chk (db\<lparr>votes := votes db @ [new]\<rparr>) new of
        Inl e \<Rightarrow> (Some e, db)
      | Inr (db', _) \<Rightarrow> (None, db'))"

definition comments_has_target :: "comment \<Rightarrow> bool" where
  \<comment> \<open>the \<open>CHECK\<close> constraint of the \<open>comments\<close> table\<close>
  "comments_has_target c =
     ((c_question_id c \<noteq> None \<and> c_answer_id c = None) \<or>
      (c_question_id c = None \<and> c_answer_id c \<noteq> None))"

definition comments_insert_policy :: "uuid option \<Rightarrow> comment \<Rightarrow> bool" where
  \<comment> \<open>the policy \<open>FOR INSERT WITH CHECK (auth.uid() = user_id)\<close>; \<open>auth_uid\<close> is the user
      of the session, NULL without one\<close>
  "comments_insert_policy auth_uid c = branch_taken (sql_eq auth_uid (Some (c_user_id c)))"

definition comments_pkey :: "database \<Rightarrow> comment \<Rightarrow> bool" where
  \<comment> \<open>\<open>id ... PRIMARY KEY\<close>: no row of the table has the identifier of the new row\<close>
  "comments_pkey db c = (c_id c \<notin> set (map c_id (comments db)))"

text \<open>
  The \<open>comments\<close> table is declared in the migration: a row is first held against the
  insert policy, then against the \<open>CHECK\<close> constraint, then against the primary key, and
  the trigger runs after that.
\<close>

definition insert_comment ::
  "(notification \<Rightarrow> bool) \<Rightarrow> uuid option \<Rightarrow> comment \<Rightarrow> database \<Rightarrow>
   error option \<times> database" where
  "insert_comment chk auth_uid new db =
     (if \<not> comments_insert_policy auth_uid new then (Some Comments_insert_policy, db)
      else if \<not> comments_has_target new then (Some Comments_has_target, db)
      else if \<not> comments_pkey db new then (Some Comments_pkey, db)
      else
        (case create_comment_notification chk (db\<lparr>comments := comments db @ [new]\<rparr>) new of
           Inl e \<Rightarrow> (Some e, db)
         | Inr (db', _) \<Rightarrow> (None, db')))"

fun fire_accept :: "(notification \<Rightarrow> bool) \<Rightarrow> (question \<times> question) list \<Rightarrow> database \<Rightarrow>
    error + database" where
  "fire_accept chk [] db = Inr db"
| "fire_accept chk ((old, new) # rows) db =
     (case create_accept_notification chk db old new of
        Inl e \<Rightarrow> Inl e
      | Inr (db', _) \<Rightarrow> fire_accept chk rows db')"

definition update_questions ::
  "(notification \<Rightarrow> bool) \<Rightarrow> (question \<Rightarrow> bool) \<Rightarrow> (question \<Rightarrow> question) \<Rightarrow> database \<Rightarrow>
   error option \<times> database" where
  \<comment> \<open>\<open>UPDATE questions SET ... WHERE p\<close>, the assignments given as \<open>f\<close>\<close>
  "update_questions chk p f db =
     (case fire_accept chk [(q, f q). q \<leftarrow> questions db, p q]
             (db\<lparr>questions := map (\<lambda>q. if p q then f q else q) (questions db)\<rparr>) of
        Inl e \<Rightarrow> (Some e, db)
      | Inr db' \<Rightarrow> (None, db'))"

section \<open>The client operations of the question page\<close>

datatype target_type = Question | Answer

definition existing_votes :: "database \<Rightarrow> uuid \<Rightarrow> target_type \<Rightarrow> uuid \<Rightarrow> vote list" where
  \<comment> \<open>\<open>from('votes').select('*').eq('user_id', user.id).eq(column, targetId)\<close>\<close>
  "existing_votes db uid targetType targetId =
     filter (\<lambda>v. v_user_id v = uid \<and>
                 (case targetType of Question \<Rightarrow> v_question_id v = Some targetId
                                   | Answer \<Rightarrow> v_answer_id v = Some targetId))
       (votes db)"

definition single :: "'a list \<Rightarrow> 'a option" where
  \<comment> \<open>\<open>.single()\<close>: the row when exactly one matches, no data otherwise\<close>
  "single rows = (case rows of [r] \<Rightarrow> Some r | _ \<Rightarrow> None)"

definition new_vote :: "uuid \<Rightarrow> uuid \<Rightarrow> target_type \<Rightarrow> uuid \<Rightarrow> int \<Rightarrow> vote" where
  "new_vote new_id uid targetType targetId voteType =
     \<lparr>v_id = new_id, v_user_id = uid,
      v_question_id = (case targetType of Question \<Rightarrow> Some targetId | Answer \<Rightarrow> None),
      v_answer_id = (case targetType of Question \<Rightarrow> None | Answer \<Rightarrow> Some targetId),
      v_vote_type = voteType\<rparr>"

text \<open>
  \<open>handleVote\<close>: \<open>user\<close> is the signed-in user, if any; \<open>new_id\<close> is the identifier the
  store gives a new row. The client does not look at the result of its writes.
\<close>

definition handleVote ::
  "(notification \<Rightarrow> bool) \<Rightarrow> uuid option \<Rightarrow> uuid \<Rightarrow> target_type \<Rightarrow> uuid \<Rightarrow> int \<Rightarrow> database \<Rightarrow>
   database" where
  "handleVote chk user new_id targetType targetId voteType db =
     (case user of
        None \<Rightarrow> db
      | Some uid \<Rightarrow>
          (case single (existing_votes db uid targetType targetId) of
             Some existingVote \<Rightarrow>
               (if v_vote_type existingVote = voteType then
                  db\<lparr>votes := filter (\<lambda>v. v_id v \<noteq> v_id existingVote) (votes db)\<rparr>
                else
                  db\<lparr>votes := map (\<lambda>v. if v_id v = v_id existingVote
                                         then v\<lparr>v_vote_type := voteType\<rparr> else v) (votes db)\<rparr>)
           | None \<Rightarrow>
               snd (insert_vote chk (new_vote new_id uid targetType targetId voteType) db)))"

text \<open>
  \<open>acceptAnswer\<close>: \<open>question\<close> is the client's copy of the question shown, \<open>id'\<close> the
  identifier of the page (\<open>id\<close> in the source). Its first write is \<open>accept_update\<close>.
\<close>

definition accept_update ::
  "(notification \<Rightarrow> bool) \<Rightarrow> uuid \<Rightarrow> uuid \<Rightarrow> database \<Rightarrow> error option \<times> database" where
  \<comment> \<open>\<open>from('questions').update({accepted_answer_id: answerId, is_answered: true}).eq('id', id)\<close>\<close>
  "accept_update chk id' answerId db =
     update_questions chk (\<lambda>q. q_id q = id')
       (\<lambda>q. q\<lparr>q_accepted_answer_id := Some answerId, q_is_answered := True\<rparr>) db"

definition acceptAnswer ::
  "(notification \<Rightarrow> bool) \<Rightarrow> uuid option \<Rightarrow> question option \<Rightarrow> uuid \<Rightarrow> uuid \<Rightarrow> database \<Rightarrow>
   database" where
  "acceptAnswer chk user question id' answerId db =
     (case user of
        None \<Rightarrow> db
      | Some uid \<Rightarrow>
          (case question of
             None \<Rightarrow> db
           | Some q \<Rightarrow>
               (if q_user_id q \<noteq> uid then db
                else
                  (let db1 = snd (accept_update chk id' answerId db)
                   in db1\<lparr>answers := map (\<lambda>a. if a_id a = answerId
                                                then a\<lparr>a_is_accepted := True\<rparr> else a)
                                          (answers db1)\<rparr>))))"

section \<open>Predicates of the properties\<close>

definition target_missing :: "database \<Rightarrow> uuid option \<Rightarrow> uuid option \<Rightarrow> bool" where
  \<comment> \<open>the content a vote or comment refers to is not there: the question, when
      \<open>question_id\<close> is set; otherwise the answer, or the question of the answer\<close>
  "target_missing db question_id answer_id =
     (case question_id of
        Some k \<Rightarrow> \<forall>q\<in>set (questions db). q_id q \<noteq> k
      | None \<Rightarrow> \<forall>a\<in>set (answers db). Some (a_id a) = answer_id \<longrightarrow>
                  (\<forall>q\<in>set (questions db). q_id q \<noteq> a_question_id a))"

definition adds_at_most_one_notification :: "database \<Rightarrow> database \<Rightarrow> bool" where
  "adds_at_most_one_notification db db' =
     (db' = db \<or> (\<exists>n. db' = db\<lparr>notifications := notifications db @ [n]\<rparr>))"


definition one_vote_per_target :: "database \<Rightarrow> bool" where
  "one_vote_per_target db =
     (\<forall>uid targetType targetId. length (existing_votes db uid targetType targetId) \<le> 1)"

text \<open>
  A run of \<open>handleVote\<close> calls, one after the other, each given as the signed-in user,
  the identifier for a new row, the target and the direction.
\<close>

fun handle_votes :: "(notification \<Rightarrow> bool) \<Rightarrow>
    (uuid option \<times> uuid \<times> target_type \<times> uuid \<times> int) list \<Rightarrow> database \<Rightarrow> database" where
  "handle_votes chk [] db = db"
| "handle_votes chk ((user, new_id, targetType, targetId, voteType) # calls) db =
     handle_votes chk calls (handleVote chk user new_id targetType targetId voteType db)"

section \<open>Example data\<close>

text \<open>User A owns question Q; user B wrote answer R1 to it, and A wrote answer R2.\<close>

definition question_Q :: question where
  "question_Q = \<lparr>q_id = ''Q'', q_title = ''How to sort a list?'', q_description = ''In place.'',
     q_user_id = ''A'', q_accepted_answer_id = None, q_is_answered = False, q_votes_count = 0,
     q_answers_count = 2, q_views_count = 0, q_created_at = ''2025-07-12''\<rparr>"

definition answer_R1 :: answer where
  "answer_R1 = \<lparr>a_id = ''R1'', a_question_id = ''Q'', a_user_id = ''B'', a_content = ''Call sort.'',
     a_is_accepted = False, a_votes_count = 0, a_created_at = ''2025-07-12''\<rparr>"

definition answer_R2 :: answer where
  "answer_R2 = \<lparr>a_id = ''R2'', a_question_id = ''Q'', a_user_id = ''A'', a_content = ''Found it.'',
     a_is_accepted = False, a_votes_count = 0, a_created_at = ''2025-07-13''\<rparr>"

definition answer_R3 :: answer where
  \<comment> \<open>a further answer of B to Q, not yet in the database\<close>
  "answer_R3 = \<lparr>a_id = ''R3'', a_question_id = ''Q'', a_user_id = ''B'', a_content = ''Or sorted.'',
     a_is_accepted = False, a_votes_count = 0, a_created_at = ''2025-07-14''\<rparr>"

definition store0 :: database where
  "store0 = \<lparr>questions = [question_Q], answers = [answer_R1, answer_R2], comments = [],
     votes = [], notifications = []\<rparr>"

definition vote_on_Q :: "uuid \<Rightarrow> int \<Rightarrow> vote" where
  "vote_on_Q uid t = \<lparr>v_id = ''V1'', v_user_id = uid, v_question_id = Some ''Q'',
     v_answer_id = None, v_vote_type = t\<rparr>"

definition comment_on_R1 :: "uuid \<Rightarrow> comment" where
  "comment_on_R1 uid = \<lparr>c_id = ''C1'', c_content = ''Thanks.'', c_user_id = uid,
     c_question_id = None, c_answer_id = Some ''R1'', c_created_at = ''2025-07-13'',
     c_updated_at = ''2025-07-13''\<rparr>"

definition comment_on_Q :: "uuid \<Rightarrow> comment" where
  "comment_on_Q uid = \<lparr>c_id = ''C2'', c_content = ''Which language?'', c_user_id = uid,
     c_question_id = Some ''Q'', c_answer_id = None, c_created_at = ''2025-07-13'',
     c_updated_at = ''2025-07-13''\<rparr>"

definition no_constraints :: "notification \<Rightarrow> bool" where
  \<comment> \<open>a \<open>notifications\<close> table that takes every row\<close>
  "no_constraints n = True"

definition rejects_all :: "notification \<Rightarrow> bool" where
  \<comment> \<open>a \<open>notifications\<close> table on which every \<open>INSERT\<close> raises\<close>
  "rejects_all n = False"

definition vote_on_R1 :: "uuid \<Rightarrow> int \<Rightarrow> vote" where
  "vote_on_R1 uid t = \<lparr>v_id = ''V2'', v_user_id = uid, v_question_id = None,
     v_answer_id = Some ''R1'', v_vote_type = t\<rparr>"

text \<open>The same data after A accepted R1.\<close>

definition store_accepted :: database where
  "store_accepted =
     \<lparr>questions = [question_Q\<lparr>q_accepted_answer_id := Some ''R1'', q_is_answered := True\<rparr>],
      answers = [answer_R1\<lparr>a_is_accepted := True\<rparr>, answer_R2], comments = [], votes = [],
      notifications = []\<rparr>"

section \<open>Facts about the SQL expressions and queries\<close>

lemmas example_defs = question_Q_def answer_R1_def answer_R2_def answer_R3_def store0_def
  vote_on_Q_def
  comment_on_R1_def comment_on_Q_def no_constraints_def rejects_all_def
  vote_on_R1_def store_accepted_def

lemmas query_defs = select_question_def select_answer_author_def select_answer_join_def
  first_row_def vote_content_def comment_target_def

lemma first_row_None: "first_row rows = None \<longleftrightarrow> rows = []"
  by (simp add: first_row_def split: list.splits)

lemma select_question_None:
  "select_question db k = None \<longleftrightarrow> (\<forall>q\<in>set (questions db). q_id q \<noteq> k)"
  by (auto simp: select_question_def first_row_None filter_empty_conv)

lemma select_answer_author_None:
  "select_answer_author db k = None \<longleftrightarrow> (\<forall>a\<in>set (answers db). a_id a \<noteq> k)"
  by (auto simp: select_answer_author_def first_row_None filter_empty_conv)

lemma select_answer_join_None:
  "select_answer_join db k = None \<longleftrightarrow>
     (\<forall>a\<in>set (answers db). a_id a = k \<longrightarrow> (\<forall>q\<in>set (questions db). q_id q \<noteq> a_question_id a))"
  by (auto simp: select_answer_join_def first_row_None)

lemma branch_taken_ne:
  "branch_taken (sql_ne x (Some u)) \<longleftrightarrow> (\<exists>a. x = Some a \<and> a \<noteq> u)"
  by (auto simp: branch_taken_def sql_ne_def split: option.splits)

lemma branch_taken_not_null_ne:
  "branch_taken (sql_and (is_not_null x) (sql_ne x (Some u))) \<longleftrightarrow> (\<exists>a. x = Some a \<and> a \<noteq> u)"
  by (auto simp: branch_taken_def sql_ne_def sql_and_def is_not_null_def split: option.splits)

lemma branch_taken_accepted_changed:
  "branch_taken (accepted_changed old new) \<longleftrightarrow>
     q_accepted_answer_id new \<noteq> None \<and>
     (q_accepted_answer_id old = None \<or> q_accepted_answer_id old \<noteq> q_accepted_answer_id new)"
  by (auto simp: branch_taken_def accepted_changed_def sql_ne_def sql_and_def sql_or_def
      is_not_null_def is_null_def split: option.splits)

lemma fst_vote_content:
  "fst (vote_content db v) =
     (case v_question_id v of
        Some k \<Rightarrow> map_option fst (select_question db k)
      | None \<Rightarrow> (case v_answer_id v of
                   Some k \<Rightarrow> map_option fst (select_answer_join db k)
                 | None \<Rightarrow> None))"
  by (simp add: vote_content_def Let_def split: option.splits)

lemma comment_target_cases:
  "comment_target db c =
     (case c_question_id c of
        Some k \<Rightarrow> (map_option fst (select_question db k), map_option snd (select_question db k),
                   Some ''comment_question'')
      | None \<Rightarrow> (case c_answer_id c of
                   Some k \<Rightarrow> (map_option fst (select_answer_join db k),
                              map_option snd (select_answer_join db k), Some ''comment_answer'')
                 | None \<Rightarrow> (None, None, None)))"
  by (simp add: comment_target_def Let_def split: option.splits)

lemma insert_accepted:
  "chk n \<Longrightarrow> insert_notification chk n db = Inr (db\<lparr>notifications := notifications db @ [n]\<rparr>)"
  by (simp add: insert_notification_def)

lemma insert_frame:
  "(case insert_notification chk n db of Inl e \<Rightarrow> Inl e | Inr db' \<Rightarrow> Inr (db', new)) = Inr (db'', r)
   \<Longrightarrow> r = new \<and> db'' = db\<lparr>notifications := notifications db @ [n]\<rparr>"
  by (auto simp: insert_notification_def split: if_splits)

section \<open>What a trigger function may write\<close>

lemma create_answer_frame:
  "create_answer_notification chk db new = Inr (db', r) \<Longrightarrow>
     r = new \<and> adds_at_most_one_notification db db'"
  unfolding create_answer_notification_def Let_def
  by (auto dest: insert_frame simp: adds_at_most_one_notification_def split: if_splits)

lemma create_accept_frame:
  "create_accept_notification chk db old new = Inr (db', r) \<Longrightarrow>
     r = new \<and> adds_at_most_one_notification db db'"
  unfolding create_accept_notification_def Let_def
  by (auto dest: insert_frame simp: adds_at_most_one_notification_def split: if_splits)

lemma create_vote_frame:
  "create_vote_notification chk db new = Inr (db', r) \<Longrightarrow>
     r = new \<and> adds_at_most_one_notification db db'"
  unfolding create_vote_notification_def Let_def
  by (auto dest: insert_frame simp: adds_at_most_one_notification_def split: if_splits)

lemma create_comment_frame:
  "create_comment_notification chk db new = Inr (db', r) \<Longrightarrow>
     r = new \<and> adds_at_most_one_notification db db'"
  unfolding create_comment_notification_def Let_def
  by (auto dest: insert_frame simp: adds_at_most_one_notification_def split: if_splits)

lemma adds_at_most_one_tables:
  "adds_at_most_one_notification db db' \<Longrightarrow>
     questions db' = questions db \<and> answers db' = answers db \<and>
     comments db' = comments db \<and> votes db' = votes db"
  by (auto simp: adds_at_most_one_notification_def)

text \<open>
  C10. Each of the four trigger functions, when it returns, returns the row it was
  given, unchanged, and leaves a database that is the one it started from or that one
  with a single row appended to \<open>notifications\<close>: no other table and no earlier
  notification is touched.
\<close>

theorem trigger_returns_row_unchanged:
  "(create_answer_notification chk db a = Inr (dba, a') \<longrightarrow>
      a' = a \<and> adds_at_most_one_notification db dba) \<and>
   (create_accept_notification chk db old new = Inr (dbq, q') \<longrightarrow>
      q' = new \<and> adds_at_most_one_notification db dbq) \<and>
   (create_vote_notification chk db v = Inr (dbv, v') \<longrightarrow>
      v' = v \<and> adds_at_most_one_notification db dbv) \<and>
   (create_comment_notification chk db c = Inr (dbc, c') \<longrightarrow>
      c' = c \<and> adds_at_most_one_notification db dbc)"
  by (auto dest: create_answer_frame create_accept_frame create_vote_frame
      create_comment_frame)

theorem trigger_returns_row_unchanged_witness:
  \<open>create_answer_notification no_constraints store0 answer_R1 =
     Inr (store0\<lparr>notifications := [\<lparr>n_user_id = Some ''A'', n_type = Some ''answer'',
            n_title = Some ''New Answer'',
            n_message = Some ''Someone answered your question: "How to sort a list?"'',
            n_question_id = Some ''Q'', n_answer_id = Some ''R1''\<rparr>]\<rparr>, answer_R1) \<and>
   adds_at_most_one_notification store0
     (store0\<lparr>notifications := [\<lparr>n_user_id = Some ''A'', n_type = Some ''answer'',
            n_title = Some ''New Answer'',
            n_message = Some ''Someone answered your question: "How to sort a list?"'',
            n_question_id = Some ''Q'', n_answer_id = Some ''R1''\<rparr>]\<rparr>) \<and>
   create_accept_notification no_constraints store0 question_Q question_Q =
     Inr (store0, question_Q) \<and>
   create_vote_notification no_constraints store0 (vote_on_Q ''B'' (- 1)) =
     Inr (store0, vote_on_Q ''B'' (- 1)) \<and>
   create_comment_notification no_constraints store0 (comment_on_R1 ''B'') =
     Inr (store0, comment_on_R1 ''B'') \<and>
   adds_at_most_one_notification store0 store0\<close>
proof -
  let ?db1 = \<open>store0\<lparr>notifications := [\<lparr>n_user_id = Some ''A'', n_type = Some ''answer'',
            n_title = Some ''New Answer'',
            n_message = Some ''Someone answered your question: "How to sort a list?"'',
            n_question_id = Some ''Q'', n_answer_id = Some ''R1''\<rparr>]\<rparr>\<close>
  have a: "create_answer_notification no_constraints store0 answer_R1 = Inr (?db1, answer_R1)"
    by (simp add: create_answer_notification_def answer_notification_def branch_taken_def
        sql_ne_def sql_concat_def insert_notification_def example_defs query_defs)
  have q: "create_accept_notification no_constraints store0 question_Q question_Q =
             Inr (store0, question_Q)"
    by (simp add: create_accept_notification_def branch_taken_accepted_changed example_defs)
  have v: "create_vote_notification no_constraints store0 (vote_on_Q ''B'' (- 1)) =
             Inr (store0, vote_on_Q ''B'' (- 1))"
    by (simp add: create_vote_notification_def example_defs)
  have c: "create_comment_notification no_constraints store0 (comment_on_R1 ''B'') =
             Inr (store0, comment_on_R1 ''B'')"
    by (simp add: create_comment_notification_def branch_taken_not_null_ne example_defs
        query_defs)
  from a q v c
    trigger_returns_row_unchanged [where chk = no_constraints and db = store0
      and a = answer_R1 and dba = ?db1 and a' = answer_R1
      and old = question_Q and new = question_Q and dbq = store0 and q' = question_Q
      and v = "vote_on_Q ''B'' (- 1)" and dbv = store0 and v' = "vote_on_Q ''B'' (- 1)"
      and c = "comment_on_R1 ''B''" and dbc = store0 and c' = "comment_on_R1 ''B''"]
  show ?thesis by simp
qed

section \<open>The derivation rules\<close>

text \<open>
  C3. When an answer is inserted, the parent question is found with owner \<open>owner\<close>, and
  the author of the answer is someone else, the trigger function appends exactly one row
  to \<open>notifications\<close> (the table accepting the row): its type is \<open>answer\<close>, its recipient the
  owner of the question, and it carries the identifiers of the question and of the new
  answer.
\<close>

theorem answer_notification_created:
  assumes "select_question db (a_question_id new) = Some (owner, title)"
    and "owner \<noteq> a_user_id new"
    and "chk (answer_notification db new)"
  shows "create_answer_notification chk db new =
           Inr (db\<lparr>notifications := notifications db @ [answer_notification db new]\<rparr>, new) \<and>
         n_type (answer_notification db new) = Some ''answer'' \<and>
         n_user_id (answer_notification db new) = Some owner \<and>
         n_question_id (answer_notification db new) = Some (a_question_id new) \<and>
         n_answer_id (answer_notification db new) = Some (a_id new)"
  using assms
  by (simp add: create_answer_notification_def branch_taken_ne insert_accepted
      answer_notification_def)

theorem answer_notification_created_witness:
  \<open>create_answer_notification no_constraints store0 answer_R1 =
     Inr (store0\<lparr>notifications := [\<lparr>n_user_id = Some ''A'', n_type = Some ''answer'',
            n_title = Some ''New Answer'',
            n_message = Some ''Someone answered your question: "How to sort a list?"'',
            n_question_id = Some ''Q'', n_answer_id = Some ''R1''\<rparr>]\<rparr>, answer_R1)\<close>
proof -
  have found: "select_question store0 (a_question_id answer_R1) =
                 Some (''A'', ''How to sort a list?'')"
    by (simp add: example_defs query_defs)
  have other: "''A'' \<noteq> a_user_id answer_R1"
    by (simp add: example_defs)
  have accepted: "no_constraints (answer_notification store0 answer_R1)"
    by (simp add: no_constraints_def)
  from answer_notification_created [where chk = no_constraints, OF found other accepted]
  show ?thesis
    by (simp add: answer_notification_def sql_concat_def example_defs query_defs)
qed

lemma first_row_all:
  assumes "rows \<noteq> []" and "\<forall>r\<in>set rows. f r = u"
  shows "map_option f (first_row rows) = Some u"
  using assms by (cases rows) (simp_all add: first_row_def)

lemma first_row_mem: "first_row rows = Some r \<Longrightarrow> r \<in> set rows"
  by (cases rows) (simp_all add: first_row_def)

lemma select_question_owner:
  assumes "\<exists>q\<in>set (questions db). q_id q = qid"
    and "\<forall>q\<in>set (questions db). q_id q = qid \<longrightarrow> q_user_id q = owner"
  shows "map_option fst (select_question db qid) = Some owner"
  unfolding select_question_def
proof (rule first_row_all)
  from assms(1) show "[(q_user_id q, q_title q). q \<leftarrow> questions db, q_id q = qid] \<noteq> []"
    by (auto simp: filter_empty_conv)
  from assms(2)
  show "\<forall>r\<in>set [(q_user_id q, q_title q). q \<leftarrow> questions db, q_id q = qid]. fst r = owner"
    by auto
qed

lemma select_answer_join_owner:
  assumes "\<exists>a\<in>set (answers db). a_id a = aid \<and>
             (\<exists>q\<in>set (questions db). q_id q = a_question_id a)"
    and "\<forall>a\<in>set (answers db). a_id a = aid \<longrightarrow> a_user_id a = author"
  shows "map_option fst (select_answer_join db aid) = Some author"
  unfolding select_answer_join_def
proof (rule first_row_all)
  from assms(1)
  show "[(a_user_id a, q_title q).
           a \<leftarrow> answers db, q \<leftarrow> questions db, q_id q = a_question_id a, a_id a = aid] \<noteq> []"
    by auto
  from assms(2)
  show "\<forall>r\<in>set [(a_user_id a, q_title q).
           a \<leftarrow> answers db, q \<leftarrow> questions db, q_id q = a_question_id a, a_id a = aid].
          fst r = author"
    by auto
qed

lemma select_question_found:
  assumes "map_option fst (select_question db qid) = Some owner"
  shows "\<exists>q\<in>set (questions db). q_id q = qid \<and> q_user_id q = owner"
proof -
  from assms obtain r where "select_question db qid = Some r" and "fst r = owner"
    by auto
  then have "r \<in> set [(q_user_id q, q_title q). q \<leftarrow> questions db, q_id q = qid]"
    unfolding select_question_def by (intro first_row_mem)
  with \<open>fst r = owner\<close> show ?thesis
    by auto
qed

lemma select_answer_join_found:
  assumes "map_option fst (select_answer_join db aid) = Some owner"
  shows "\<exists>a\<in>set (answers db). a_id a = aid \<and> a_user_id a = owner \<and>
           (\<exists>q\<in>set (questions db). q_id q = a_question_id a)"
proof -
  from assms obtain r where "select_answer_join db aid = Some r" and "fst r = owner"
    by auto
  then have "r \<in> set [(a_user_id a, q_title q).
      a \<leftarrow> answers db, q \<leftarrow> questions db, q_id q = a_question_id a, a_id a = aid]"
    unfolding select_answer_join_def by (intro first_row_mem)
  with \<open>fst r = owner\<close> show ?thesis
    by (auto split: if_splits)
qed

lemma vote_content_found:
  assumes "fst (vote_content db v) = Some owner"
  shows "(\<exists>q\<in>set (questions db). Some (q_id q) = v_question_id v \<and> q_user_id q = owner) \<or>
         (v_question_id v = None \<and>
          (\<exists>a\<in>set (answers db). Some (a_id a) = v_answer_id v \<and> a_user_id a = owner \<and>
             (\<exists>q\<in>set (questions db). q_id q = a_question_id a)))"
proof (cases "v_question_id v")
  case (Some qid)
  with assms have "map_option fst (select_question db qid) = Some owner"
    by (simp add: fst_vote_content)
  from select_question_found [OF this] Some show ?thesis
    by auto
next
  case None
  with assms obtain aid where aid: "v_answer_id v = Some aid"
    and "map_option fst (select_answer_join db aid) = Some owner"
    by (auto simp: fst_vote_content split: option.splits)
  from select_answer_join_found [OF this(2)] None aid show ?thesis
    by auto
qed

lemma vote_notification_fields:
  "n_type (vote_notification db v) = Some ''vote'' \<and>
   n_user_id (vote_notification db v) = fst (vote_content db v) \<and>
   n_question_id (vote_notification db v) = v_question_id v \<and>
   n_answer_id (vote_notification db v) = v_answer_id v"
  by (simp add: vote_notification_def split: prod.splits)

lemma create_vote_written:
  assumes "v_vote_type v = 1" and "fst (vote_content db v) = Some owner"
    and "owner \<noteq> v_user_id v" and "chk (vote_notification db v)"
  shows "create_vote_notification chk db v =
           Inr (db\<lparr>notifications := notifications db @ [vote_notification db v]\<rparr>, v)"
  using assms
  by (simp add: create_vote_notification_def branch_taken_not_null_ne insert_accepted)

text \<open>
  C4. A vote insert appends a notification only when \<open>vote_type\<close> is 1 and the voted
  content is in the database with an owner other than the voter: the question named by
  \<open>question_id\<close>, or else the answer named by \<open>answer_id\<close>, whose question must be there
  too. Then exactly one row is appended (the table accepting it), of type \<open>vote\<close>, with
  the vote's \<open>question_id\<close> and \<open>answer_id\<close>, addressed to the owner of that question or
  to the author of that answer. In every other case, and so for every vote with
  \<open>vote_type = -1\<close>, whoever votes on whatever content, the database is unchanged.
\<close>

theorem vote_notification_upvote_only:
  "(v_vote_type v = 1 \<and> v_question_id v = Some qid \<and>
    (\<exists>q\<in>set (questions db). q_id q = qid) \<and>
    (\<forall>q\<in>set (questions db). q_id q = qid \<longrightarrow> q_user_id q = owner) \<and>
    owner \<noteq> v_user_id v \<and> chk (vote_notification db v) \<longrightarrow>
      create_vote_notification chk db v =
        Inr (db\<lparr>notifications := notifications db @ [vote_notification db v]\<rparr>, v) \<and>
      n_type (vote_notification db v) = Some ''vote'' \<and>
      n_user_id (vote_notification db v) = Some owner \<and>
      n_question_id (vote_notification db v) = Some qid \<and>
      n_answer_id (vote_notification db v) = v_answer_id v) \<and>
   (v_vote_type v = 1 \<and> v_question_id v = None \<and> v_answer_id v = Some aid \<and>
    (\<exists>a\<in>set (answers db). a_id a = aid \<and>
       (\<exists>q\<in>set (questions db). q_id q = a_question_id a)) \<and>
    (\<forall>a\<in>set (answers db). a_id a = aid \<longrightarrow> a_user_id a = author) \<and>
    author \<noteq> v_user_id v \<and> chk (vote_notification db v) \<longrightarrow>
      create_vote_notification chk db v =
        Inr (db\<lparr>notifications := notifications db @ [vote_notification db v]\<rparr>, v) \<and>
      n_type (vote_notification db v) = Some ''vote'' \<and>
      n_user_id (vote_notification db v) = Some author \<and>
      n_question_id (vote_notification db v) = None \<and>
      n_answer_id (vote_notification db v) = Some aid) \<and>
   (create_vote_notification chk db v = Inr (db', r) \<and> db' \<noteq> db \<longrightarrow>
      v_vote_type v = 1 \<and>
      db' = db\<lparr>notifications := notifications db @ [vote_notification db v]\<rparr> \<and>
      (\<exists>recipient. n_user_id (vote_notification db v) = Some recipient \<and>
         recipient \<noteq> v_user_id v \<and>
         ((\<exists>q\<in>set (questions db). Some (q_id q) = v_question_id v \<and> q_user_id q = recipient) \<or>
          (v_question_id v = None \<and>
           (\<exists>a\<in>set (answers db). Some (a_id a) = v_answer_id v \<and> a_user_id a = recipient \<and>
              (\<exists>q\<in>set (questions db). q_id q = a_question_id a)))))) \<and>
   (\<not> (v_vote_type v = 1 \<and>
        (\<exists>owner. fst (vote_content db v) = Some owner \<and> owner \<noteq> v_user_id v)) \<longrightarrow>
      create_vote_notification chk db v = Inr (db, v)) \<and>
   (v_vote_type v = - 1 \<longrightarrow> create_vote_notification chk db v = Inr (db, v))"
proof (intro conjI impI)
  assume h: "v_vote_type v = 1 \<and> v_question_id v = Some qid \<and>
    (\<exists>q\<in>set (questions db). q_id q = qid) \<and>
    (\<forall>q\<in>set (questions db). q_id q = qid \<longrightarrow> q_user_id q = owner) \<and>
    owner \<noteq> v_user_id v \<and> chk (vote_notification db v)"
  then have up: "v_vote_type v = 1" and target: "v_question_id v = Some qid"
    and present: "\<exists>q\<in>set (questions db). q_id q = qid"
    and owned: "\<forall>q\<in>set (questions db). q_id q = qid \<longrightarrow> q_user_id q = owner"
    and other: "owner \<noteq> v_user_id v" and taken: "chk (vote_notification db v)"
    by blast+
  from present owned have "map_option fst (select_question db qid) = Some owner"
    by (rule select_question_owner)
  with target have resolved: "fst (vote_content db v) = Some owner"
    by (simp add: fst_vote_content)
  from up resolved other taken show "create_vote_notification chk db v =
        Inr (db\<lparr>notifications := notifications db @ [vote_notification db v]\<rparr>, v)"
    by (rule create_vote_written)
  from resolved target vote_notification_fields [of db v]
  show "n_type (vote_notification db v) = Some ''vote''"
    and "n_user_id (vote_notification db v) = Some owner"
    and "n_question_id (vote_notification db v) = Some qid"
    and "n_answer_id (vote_notification db v) = v_answer_id v"
    by simp_all
next
  assume h: "v_vote_type v = 1 \<and> v_question_id v = None \<and> v_answer_id v = Some aid \<and>
    (\<exists>a\<in>set (answers db). a_id a = aid \<and>
       (\<exists>q\<in>set (questions db). q_id q = a_question_id a)) \<and>
    (\<forall>a\<in>set (answers db). a_id a = aid \<longrightarrow> a_user_id a = author) \<and>
    author \<noteq> v_user_id v \<and> chk (vote_notification db v)"
  then have up: "v_vote_type v = 1" and target: "v_question_id v = None"
    "v_answer_id v = Some aid"
    and present: "\<exists>a\<in>set (answers db). a_id a = aid \<and>
       (\<exists>q\<in>set (questions db). q_id q = a_question_id a)"
    and owned: "\<forall>a\<in>set (answers db). a_id a = aid \<longrightarrow> a_user_id a = author"
    and other: "author \<noteq> v_user_id v" and taken: "chk (vote_notification db v)"
    by blast+
  from present owned have "map_option fst (select_answer_join db aid) = Some author"
    by (rule select_answer_join_owner)
  with target have resolved: "fst (vote_content db v) = Some author"
    by (simp add: fst_vote_content)
  from up resolved other taken show "create_vote_notification chk db v =
        Inr (db\<lparr>notifications := notifications db @ [vote_notification db v]\<rparr>, v)"
    by (rule create_vote_written)
  from resolved target vote_notification_fields [of db v]
  show "n_type (vote_notification db v) = Some ''vote''"
    and "n_user_id (vote_notification db v) = Some author"
    and "n_question_id (vote_notification db v) = None"
    and "n_answer_id (vote_notification db v) = Some aid"
    by simp_all
next
  assume h: "create_vote_notification chk db v = Inr (db', r) \<and> db' \<noteq> db"
  then show up: "v_vote_type v = 1"
    by (auto simp: create_vote_notification_def split: if_splits)
  from h obtain recipient where recipient: "fst (vote_content db v) = Some recipient"
    "recipient \<noteq> v_user_id v"
    by (auto simp: create_vote_notification_def branch_taken_not_null_ne split: if_splits)
  from h show "db' = db\<lparr>notifications := notifications db @ [vote_notification db v]\<rparr>"
    by (auto simp: create_vote_notification_def insert_notification_def Let_def
        split: if_splits)
  from recipient vote_content_found [OF recipient(1)] vote_notification_fields [of db v]
  show "\<exists>recipient. n_user_id (vote_notification db v) = Some recipient \<and>
         recipient \<noteq> v_user_id v \<and>
         ((\<exists>q\<in>set (questions db). Some (q_id q) = v_question_id v \<and> q_user_id q = recipient) \<or>
          (v_question_id v = None \<and>
           (\<exists>a\<in>set (answers db). Some (a_id a) = v_answer_id v \<and> a_user_id a = recipient \<and>
              (\<exists>q\<in>set (questions db). q_id q = a_question_id a))))"
    by simp
next
  assume "\<not> (v_vote_type v = 1 \<and>
        (\<exists>owner. fst (vote_content db v) = Some owner \<and> owner \<noteq> v_user_id v))"
  then show "create_vote_notification chk db v = Inr (db, v)"
    by (auto simp: create_vote_notification_def branch_taken_not_null_ne)
next
  assume "v_vote_type v = - 1"
  then show "create_vote_notification chk db v = Inr (db, v)"
    by (simp add: create_vote_notification_def)
qed

theorem vote_notification_upvote_only_witness:
  \<open>create_vote_notification no_constraints store0 (vote_on_Q ''B'' 1) =
     Inr (store0\<lparr>notifications := [\<lparr>n_user_id = Some ''A'', n_type = Some ''vote'',
            n_title = Some ''Upvoted'',
            n_message = Some ''Someone upvoted your question on: "How to sort a list?"'',
            n_question_id = Some ''Q'', n_answer_id = None\<rparr>]\<rparr>, vote_on_Q ''B'' 1) \<and>
   create_vote_notification no_constraints store0 (vote_on_R1 ''A'' 1) =
     Inr (store0\<lparr>notifications := [\<lparr>n_user_id = Some ''B'', n_type = Some ''vote'',
            n_title = Some ''Upvoted'',
            n_message = Some ''Someone upvoted your answer on: "How to sort a list?"'',
            n_question_id = None, n_answer_id = Some ''R1''\<rparr>]\<rparr>, vote_on_R1 ''A'' 1) \<and>
   n_user_id (vote_notification store0 (vote_on_R1 ''A'' 1)) = Some (a_user_id answer_R1) \<and>
   create_vote_notification no_constraints store0 (vote_on_R1 ''B'' 1) =
     Inr (store0, vote_on_R1 ''B'' 1) \<and>
   create_vote_notification no_constraints store0 (vote_on_R1 ''A'' (- 1)) =
     Inr (store0, vote_on_R1 ''A'' (- 1)) \<and>
   create_vote_notification no_constraints store0 (vote_on_Q ''B'' (- 1)) =
     Inr (store0, vote_on_Q ''B'' (- 1))\<close>
proof -
  let ?vq = "vote_on_Q ''B'' 1"
  let ?va = "vote_on_R1 ''A'' 1"
  let ?dba = "store0\<lparr>notifications := notifications store0 @ [vote_notification store0 ?va]\<rparr>"
  have on_question: "v_vote_type ?vq = 1 \<and> v_question_id ?vq = Some ''Q'' \<and>
      (\<exists>q\<in>set (questions store0). q_id q = ''Q'') \<and>
      (\<forall>q\<in>set (questions store0). q_id q = ''Q'' \<longrightarrow> q_user_id q = ''A'') \<and>
      ''A'' \<noteq> v_user_id ?vq \<and> no_constraints (vote_notification store0 ?vq)"
    by (simp add: example_defs)
  have on_answer: "v_vote_type ?va = 1 \<and> v_question_id ?va = None \<and>
      v_answer_id ?va = Some ''R1'' \<and>
      (\<exists>a\<in>set (answers store0). a_id a = ''R1'' \<and>
         (\<exists>q\<in>set (questions store0). q_id q = a_question_id a)) \<and>
      (\<forall>a\<in>set (answers store0). a_id a = ''R1'' \<longrightarrow> a_user_id a = ''B'') \<and>
      ''B'' \<noteq> v_user_id ?va \<and> no_constraints (vote_notification store0 ?va)"
    by (simp add: example_defs)
  have self: "\<not> (v_vote_type (vote_on_R1 ''B'' 1) = 1 \<and>
      (\<exists>owner. fst (vote_content store0 (vote_on_R1 ''B'' 1)) = Some owner \<and>
         owner \<noteq> v_user_id (vote_on_R1 ''B'' 1)))"
    by (simp add: example_defs query_defs)
  have down_answer: "v_vote_type (vote_on_R1 ''A'' (- 1)) = - 1"
    and down_question: "v_vote_type (vote_on_Q ''B'' (- 1)) = - 1"
    by (simp_all add: example_defs)
  from on_question
    vote_notification_upvote_only [where v = ?vq and db = store0 and qid = "''Q''"
      and owner = "''A''" and chk = no_constraints]
  have first: "create_vote_notification no_constraints store0 ?vq =
      Inr (store0\<lparr>notifications := notifications store0 @ [vote_notification store0 ?vq]\<rparr>, ?vq)"
    by blast
  from on_answer
    vote_notification_upvote_only [where v = ?va and db = store0 and aid = "''R1''"
      and author = "''B''" and chk = no_constraints]
  have second: "create_vote_notification no_constraints store0 ?va = Inr (?dba, ?va) \<and>
      n_user_id (vote_notification store0 ?va) = Some ''B''"
    by blast
  have differs: "?dba \<noteq> store0"
    by (simp add: example_defs)
  from second differs
    vote_notification_upvote_only [where v = ?va and db = store0 and db' = ?dba and r = ?va
      and chk = no_constraints]
  have "v_vote_type ?va = 1"
    by blast
  from self
    vote_notification_upvote_only [where v = "vote_on_R1 ''B'' 1" and db = store0
      and chk = no_constraints]
  have third: "create_vote_notification no_constraints store0 (vote_on_R1 ''B'' 1) =
      Inr (store0, vote_on_R1 ''B'' 1)"
    by blast
  from down_answer
    vote_notification_upvote_only [where v = "vote_on_R1 ''A'' (- 1)" and db = store0
      and chk = no_constraints]
  have fourth: "create_vote_notification no_constraints store0 (vote_on_R1 ''A'' (- 1)) =
      Inr (store0, vote_on_R1 ''A'' (- 1))"
    by blast
  from down_question
    vote_notification_upvote_only [where v = "vote_on_Q ''B'' (- 1)" and db = store0
      and chk = no_constraints]
  have fifth: "create_vote_notification no_constraints store0 (vote_on_Q ''B'' (- 1)) =
      Inr (store0, vote_on_Q ''B'' (- 1))"
    by blast
  from first second third fourth fifth show ?thesis
    by (simp add: vote_notification_def sql_concat_def example_defs query_defs)
qed

text \<open>
  C6. When a comment that satisfies the \<open>comments_has_target\<close> constraint is inserted,
  the function resolves an owner, and the commenter is someone else, exactly one row is
  appended to \<open>notifications\<close> (the table accepting the row), addressed to that owner,
  with the comment's \<open>question_id\<close> and \<open>answer_id\<close>: of type \<open>comment_question\<close>, the
  owner being the question's, when \<open>question_id\<close> is set; of type \<open>comment_answer\<close>, the
  owner being the answer's, when \<open>answer_id\<close> is set.
\<close>

theorem comment_notification_created:
  assumes "comments_has_target c"
    and "fst (comment_target db c) = Some owner"
    and "owner \<noteq> c_user_id c"
    and "chk (comment_notification db c)"
  shows "create_comment_notification chk db c =
           Inr (db\<lparr>notifications := notifications db @ [comment_notification db c]\<rparr>, c) \<and>
         n_user_id (comment_notification db c) = Some owner \<and>
         n_question_id (comment_notification db c) = c_question_id c \<and>
         n_answer_id (comment_notification db c) = c_answer_id c \<and>
         (\<forall>k. c_question_id c = Some k \<longrightarrow>
            n_type (comment_notification db c) = Some ''comment_question'' \<and>
            map_option fst (select_question db k) = Some owner) \<and>
         (\<forall>k. c_answer_id c = Some k \<longrightarrow>
            n_type (comment_notification db c) = Some ''comment_answer'' \<and>
            map_option fst (select_answer_join db k) = Some owner)"
  using assms
  by (auto simp: create_comment_notification_def branch_taken_not_null_ne insert_accepted
      comment_notification_def comment_target_cases comments_has_target_def
      split: prod.splits option.splits)

theorem comment_notification_created_witness:
  \<open>create_comment_notification no_constraints store0 (comment_on_R1 ''A'') =
     Inr (store0\<lparr>notifications := [\<lparr>n_user_id = Some ''B'', n_type = Some ''comment_answer'',
            n_title = Some ''New Comment'',
            n_message = Some ''Someone commented on your answer: "How to sort a list?"'',
            n_question_id = None, n_answer_id = Some ''R1''\<rparr>]\<rparr>, comment_on_R1 ''A'') \<and>
   create_comment_notification no_constraints store0 (comment_on_Q ''B'') =
     Inr (store0\<lparr>notifications := [\<lparr>n_user_id = Some ''A'', n_type = Some ''comment_question'',
            n_title = Some ''New Comment'',
            n_message = Some ''Someone commented on your question: "How to sort a list?"'',
            n_question_id = Some ''Q'', n_answer_id = None\<rparr>]\<rparr>, comment_on_Q ''B'')\<close>
proof -
  have on_answer: "comments_has_target (comment_on_R1 ''A'')"
    "fst (comment_target store0 (comment_on_R1 ''A'')) = Some ''B''"
    "''B'' \<noteq> c_user_id (comment_on_R1 ''A'')"
    "no_constraints (comment_notification store0 (comment_on_R1 ''A''))"
    by (simp_all add: comments_has_target_def example_defs query_defs)
  have on_question: "comments_has_target (comment_on_Q ''B'')"
    "fst (comment_target store0 (comment_on_Q ''B'')) = Some ''A''"
    "''A'' \<noteq> c_user_id (comment_on_Q ''B'')"
    "no_constraints (comment_notification store0 (comment_on_Q ''B''))"
    by (simp_all add: comments_has_target_def example_defs query_defs)
  from comment_notification_created [where chk = no_constraints, OF on_answer]
    comment_notification_created [where chk = no_constraints, OF on_question]
  show ?thesis
    by (simp add: comment_notification_def sql_concat_def example_defs query_defs)
qed

section \<open>The accept rule and the update that fires it\<close>

lemma create_accept_tables:
  assumes "create_accept_notification chk db old new = Inr (db', r)"
  shows "questions db' = questions db \<and> answers db' = answers db \<and>
         comments db' = comments db \<and> votes db' = votes db"
  using create_accept_frame [OF assms]
  by (auto simp: adds_at_most_one_notification_def)


lemma fire_accept_tables:
  "fire_accept chk rows db = Inr db' \<Longrightarrow>
     questions db' = questions db \<and> answers db' = answers db \<and>
     comments db' = comments db \<and> votes db' = votes db"
proof (induction rows arbitrary: db)
  case Nil
  then show ?case by simp
next
  case (Cons row rows)
  obtain old new where row: "row = (old, new)" by (cases row)
  from Cons.prems row obtain db1 r where
    first: "create_accept_notification chk db old new = Inr (db1, r)" and
    rest: "fire_accept chk rows db1 = Inr db'"
    by (auto split: sum.splits)
  from create_accept_tables [OF first] Cons.IH [OF rest] show ?case by simp
qed


lemma create_accept_same:
  "q_accepted_answer_id old = q_accepted_answer_id new \<Longrightarrow>
     create_accept_notification chk db old new = Inr (db, new)"
  by (auto simp: create_accept_notification_def branch_taken_accepted_changed)


lemma fire_accept_same:
  "\<forall>(old, new)\<in>set rows. q_accepted_answer_id old = q_accepted_answer_id new \<Longrightarrow>
     fire_accept chk rows db = Inr db"
  by (induction rows) (auto simp: create_accept_same)


lemma accept_update_success:
  assumes "accept_update chk i k db = (None, db')"
  shows "questions db' =
           map (\<lambda>q. if q_id q = i then q\<lparr>q_accepted_answer_id := Some k, q_is_answered := True\<rparr>
                     else q) (questions db) \<and>
         answers db' = answers db \<and> comments db' = comments db \<and> votes db' = votes db"
  using assms unfolding accept_update_def update_questions_def
  by (auto split: sum.splits dest!: fire_accept_tables)


lemma accept_update_failure:
  "accept_update chk i k db = (Some e, db') \<Longrightarrow> db' = db"
  unfolding accept_update_def update_questions_def
  by (auto split: sum.splits)


lemma accept_update_again:
  assumes "accept_update chk i k db = (None, db')"
  shows "accept_update chk i k db' = (None, db')"
proof -
  let ?f = "\<lambda>q. q\<lparr>q_accepted_answer_id := Some k, q_is_answered := True\<rparr>"
  let ?g = "\<lambda>q. if q_id q = i then ?f q else q"
  from accept_update_success [OF assms]
  have qs: "questions db' = map ?g (questions db)"
    by simp
  have fixed: "?f q = q" if "q \<in> set (questions db')" "q_id q = i" for q
  proof -
    from that(1) have "q \<in> ?g ` set (questions db)"
      by (simp add: qs)
    then obtain q0 where q: "q = ?g q0" and "q0 \<in> set (questions db)" ..
    show ?thesis
    proof (cases "q_id q0 = i")
      case True
      with q show ?thesis by simp
    next
      case False
      with q that(2) show ?thesis by simp
    qed
  qed
  have acc: "q_accepted_answer_id q = Some k" if "q \<in> set (questions db')" "q_id q = i" for q
  proof -
    have "q_accepted_answer_id (?f q) = Some k" by simp
    with fixed [OF that] show ?thesis by simp
  qed
  have same: "map ?g (questions db') = questions db'"
    by (rule map_idI) (simp add: fixed)
  have rows: "fire_accept chk [(q, ?f q). q \<leftarrow> questions db', q_id q = i] db' = Inr db'"
    by (rule fire_accept_same) (auto simp: acc)
  show ?thesis
    unfolding accept_update_def update_questions_def by (simp add: same rows)
qed

lemma accept_update_idem:
  "snd (accept_update chk i k (snd (accept_update chk i k db))) = snd (accept_update chk i k db)"
proof (cases "accept_update chk i k db")
  case (Pair e db')
  show ?thesis
  proof (cases e)
    case None
    with Pair accept_update_again [of chk i k db db'] show ?thesis by simp
  next
    case (Some err)
    with Pair accept_update_failure [of chk i k db err db'] show ?thesis by simp
  qed
qed


text \<open>
  C2. On an update of a question row the accept function appends at most one row, and
  only when \<open>accepted_answer_id\<close> is non-null after the update and was null or different
  before. When that holds, the answer is found and its author is not the question's owner,
  exactly one row of type \<open>accepted\<close> is appended, addressed to the author of the answer
  (the table accepting the row). When \<open>accepted_answer_id\<close> is the same before and after,
  nothing is written; and running the client's accept update a second time with the same
  answer leaves the database as the first run left it.
\<close>

theorem accept_notification_once:
  "(q_accepted_answer_id new = Some k \<and> q_accepted_answer_id old \<noteq> Some k \<and>
    select_answer_author db k = Some author \<and> author \<noteq> q_user_id new \<and>
    chk (accept_notification db new) \<longrightarrow>
      create_accept_notification chk db old new =
        Inr (db\<lparr>notifications := notifications db @ [accept_notification db new]\<rparr>, new) \<and>
      n_type (accept_notification db new) = Some ''accepted'' \<and>
      n_user_id (accept_notification db new) = Some author) \<and>
   (create_accept_notification chk db old new = Inr (db', r) \<and> db' \<noteq> db \<longrightarrow>
      q_accepted_answer_id new \<noteq> None \<and>
      (q_accepted_answer_id old = None \<or>
       q_accepted_answer_id old \<noteq> q_accepted_answer_id new) \<and>
      db' = db\<lparr>notifications := notifications db @ [accept_notification db new]\<rparr>) \<and>
   (q_accepted_answer_id old = q_accepted_answer_id new \<longrightarrow>
      create_accept_notification chk db old new = Inr (db, new)) \<and>
   snd (accept_update chk i a (snd (accept_update chk i a db))) = snd (accept_update chk i a db)"
proof (intro conjI impI)
  assume h: "q_accepted_answer_id new = Some k \<and> q_accepted_answer_id old \<noteq> Some k \<and>
    select_answer_author db k = Some author \<and> author \<noteq> q_user_id new \<and>
    chk (accept_notification db new)"
  then show "create_accept_notification chk db old new =
        Inr (db\<lparr>notifications := notifications db @ [accept_notification db new]\<rparr>, new)"
    by (auto simp: create_accept_notification_def branch_taken_accepted_changed
        branch_taken_ne insert_accepted)
  from h show "n_type (accept_notification db new) = Some ''accepted''"
    by (simp add: accept_notification_def)
  from h show "n_user_id (accept_notification db new) = Some author"
    by (simp add: accept_notification_def)
next
  assume h: "create_accept_notification chk db old new = Inr (db', r) \<and> db' \<noteq> db"
  then have taken: "branch_taken (accepted_changed old new)"
    by (auto simp: create_accept_notification_def split: if_splits)
  then show "q_accepted_answer_id new \<noteq> None"
    and "q_accepted_answer_id old = None \<or>
         q_accepted_answer_id old \<noteq> q_accepted_answer_id new"
    by (simp_all add: branch_taken_accepted_changed)
  from h show "db' = db\<lparr>notifications := notifications db @ [accept_notification db new]\<rparr>"
    by (auto simp: create_accept_notification_def insert_notification_def Let_def
        split: if_splits)
next
  assume "q_accepted_answer_id old = q_accepted_answer_id new"
  then show "create_accept_notification chk db old new = Inr (db, new)"
    by (rule create_accept_same)
next
  show "snd (accept_update chk i a (snd (accept_update chk i a db))) =
        snd (accept_update chk i a db)"
    by (rule accept_update_idem)
qed

theorem accept_notification_once_witness:
  \<open>create_accept_notification no_constraints store0 question_Q
     (question_Q\<lparr>q_accepted_answer_id := Some ''R1''\<rparr>) =
     Inr (store0\<lparr>notifications := [\<lparr>n_user_id = Some ''B'', n_type = Some ''accepted'',
            n_title = Some ''Answer Accepted'',
            n_message = Some ''Your answer was accepted for: "How to sort a list?"'',
            n_question_id = Some ''Q'', n_answer_id = Some ''R1''\<rparr>]\<rparr>,
          question_Q\<lparr>q_accepted_answer_id := Some ''R1''\<rparr>) \<and>
   q_accepted_answer_id (question_Q\<lparr>q_accepted_answer_id := Some ''R1''\<rparr>) \<noteq> None \<and>
   q_accepted_answer_id question_Q = None \<and>
   create_accept_notification no_constraints store0
     (question_Q\<lparr>q_accepted_answer_id := Some ''R1''\<rparr>)
     (question_Q\<lparr>q_accepted_answer_id := Some ''R1''\<rparr>) =
     Inr (store0, question_Q\<lparr>q_accepted_answer_id := Some ''R1''\<rparr>)\<close>
proof -
  let ?new = "question_Q\<lparr>q_accepted_answer_id := Some ''R1''\<rparr>"
  let ?db' = "store0\<lparr>notifications := notifications store0 @ [accept_notification store0 ?new]\<rparr>"
  have changed: "q_accepted_answer_id ?new = Some ''R1'' \<and>
      q_accepted_answer_id question_Q \<noteq> Some ''R1'' \<and>
      select_answer_author store0 ''R1'' = Some ''B'' \<and> ''B'' \<noteq> q_user_id ?new \<and>
      no_constraints (accept_notification store0 ?new)"
    by (simp add: example_defs query_defs)
  from changed accept_notification_once [where chk = no_constraints and db = store0
      and old = question_Q and new = ?new and k = "''R1''" and author = "''B''"]
  have created: "create_accept_notification no_constraints store0 question_Q ?new =
      Inr (?db', ?new)"
    by blast
  have differs: "?db' \<noteq> store0"
    by (simp add: example_defs)
  from created differs accept_notification_once [where chk = no_constraints and db = store0
      and old = question_Q and new = ?new and db' = ?db' and r = ?new]
  have only_when: "q_accepted_answer_id ?new \<noteq> None \<and>
      (q_accepted_answer_id question_Q = None \<or>
       q_accepted_answer_id question_Q \<noteq> q_accepted_answer_id ?new)"
    by blast
  from accept_notification_once [where chk = no_constraints and db = store0
      and old = ?new and new = ?new]
  have same: "create_accept_notification no_constraints store0 ?new ?new = Inr (store0, ?new)"
    by blast
  from created only_when same show ?thesis
    by (simp add: accept_notification_def sql_concat_def example_defs query_defs)
qed

section \<open>Acting on one's own content\<close>

lemma fire_accept_self:
  assumes "select_answer_author db k = Some u"
    and "\<forall>(old, new)\<in>set rows. q_accepted_answer_id new = Some k \<and> q_user_id new = u"
  shows "fire_accept chk rows db = Inr db"
  using assms(2)
proof (induction rows)
  case Nil
  then show ?case by simp
next
  case (Cons row rows)
  obtain old new where row: "row = (old, new)"
    by (cases row)
  with Cons.prems assms(1)
  have "Option.bind (q_accepted_answer_id new) (select_answer_author db) = Some (q_user_id new)"
    by simp
  then have "create_accept_notification chk db old new = Inr (db, new)"
    by (simp add: create_accept_notification_def branch_taken_ne)
  with Cons row show ?case
    by simp
qed

lemma accept_update_self:
  assumes "select_answer_author db k = Some u"
    and "\<forall>q\<in>set (questions db). q_id q = i \<longrightarrow> q_user_id q = u"
  shows "notifications (snd (accept_update chk i k db)) = notifications db"
proof -
  let ?f = "\<lambda>q. q\<lparr>q_accepted_answer_id := Some k, q_is_answered := True\<rparr>"
  let ?db1 = "db\<lparr>questions := map (\<lambda>q. if q_id q = i then ?f q else q) (questions db)\<rparr>"
  from assms(1) have "select_answer_author ?db1 k = Some u"
    by (simp add: select_answer_author_def)
  moreover from assms(2)
  have "\<forall>(old, new)\<in>set [(q, ?f q). q \<leftarrow> questions db, q_id q = i].
      q_accepted_answer_id new = Some k \<and> q_user_id new = u"
    by auto
  ultimately have "fire_accept chk [(q, ?f q). q \<leftarrow> questions db, q_id q = i] ?db1 = Inr ?db1"
    by (rule fire_accept_self)
  then show ?thesis
    by (simp add: accept_update_def update_questions_def)
qed

text \<open>
  C1. In each of the four trigger functions, when the owner the function resolves is the
  acting user of the row (the answer's author, the question's owner for an accept, the
  voter, the commenter), the function returns without writing: the database is unchanged.
  So does the client's \<open>acceptAnswer\<close>: when the signed-in user owns the question and
  wrote the accepted answer, it adds no notification.
\<close>

theorem no_self_notification:
  "(map_option fst (select_question db (a_question_id a)) = Some (a_user_id a) \<longrightarrow>
      create_answer_notification chk db a = Inr (db, a)) \<and>
   (Option.bind (q_accepted_answer_id new) (select_answer_author db) = Some (q_user_id new) \<longrightarrow>
      create_accept_notification chk db old new = Inr (db, new)) \<and>
   (fst (vote_content db v) = Some (v_user_id v) \<longrightarrow>
      create_vote_notification chk db v = Inr (db, v)) \<and>
   (fst (comment_target db c) = Some (c_user_id c) \<longrightarrow>
      create_comment_notification chk db c = Inr (db, c)) \<and>
   (select_answer_author db k = Some u \<and>
    (\<forall>q\<in>set (questions db). q_id q = i \<longrightarrow> q_user_id q = u) \<longrightarrow>
      notifications (acceptAnswer chk (Some u) question i k db) = notifications db)"
proof -
  have "notifications (acceptAnswer chk (Some u) question i k db) = notifications db"
    if "select_answer_author db k = Some u"
      and "\<forall>q\<in>set (questions db). q_id q = i \<longrightarrow> q_user_id q = u"
    using accept_update_self [OF that, of chk]
    by (simp add: acceptAnswer_def Let_def split: option.splits)
  then show ?thesis
    by (auto simp: create_answer_notification_def create_accept_notification_def
        create_vote_notification_def create_comment_notification_def
        branch_taken_ne branch_taken_not_null_ne)
qed

theorem no_self_notification_witness:
  "map_option fst (select_question store0 (a_question_id answer_R2)) = Some (a_user_id answer_R2) \<and>
   create_answer_notification no_constraints store0 answer_R2 = Inr (store0, answer_R2) \<and>
   Option.bind (q_accepted_answer_id (question_Q\<lparr>q_accepted_answer_id := Some ''R2''\<rparr>))
     (select_answer_author store0) =
     Some (q_user_id (question_Q\<lparr>q_accepted_answer_id := Some ''R2''\<rparr>)) \<and>
   create_accept_notification no_constraints store0 question_Q
     (question_Q\<lparr>q_accepted_answer_id := Some ''R2''\<rparr>) =
     Inr (store0, question_Q\<lparr>q_accepted_answer_id := Some ''R2''\<rparr>) \<and>
   fst (vote_content store0 (vote_on_Q ''A'' 1)) = Some (v_user_id (vote_on_Q ''A'' 1)) \<and>
   create_vote_notification no_constraints store0 (vote_on_Q ''A'' 1) =
     Inr (store0, vote_on_Q ''A'' 1) \<and>
   fst (comment_target store0 (comment_on_R1 ''B'')) = Some (c_user_id (comment_on_R1 ''B'')) \<and>
   create_comment_notification no_constraints store0 (comment_on_R1 ''B'') =
     Inr (store0, comment_on_R1 ''B'') \<and>
   select_answer_author store0 ''R2'' = Some ''A'' \<and>
   map q_user_id (filter (\<lambda>q. q_id q = ''Q'') (questions store0)) = [''A''] \<and>
   notifications (acceptAnswer no_constraints (Some ''A'') (Some question_Q) ''Q'' ''R2'' store0) =
     notifications store0"
proof -
  have owned: "\<forall>q\<in>set (questions store0). q_id q = ''Q'' \<longrightarrow> q_user_id q = ''A''"
    by (simp add: example_defs)
  have author: "select_answer_author store0 ''R2'' = Some ''A''"
    by (simp add: example_defs query_defs)
  from owned author
    no_self_notification [where db = store0 and a = answer_R2 and chk = no_constraints
      and old = question_Q and new = "question_Q\<lparr>q_accepted_answer_id := Some ''R2''\<rparr>"
      and v = "vote_on_Q ''A'' 1" and c = "comment_on_R1 ''B''"
      and k = "''R2''" and u = "''A''" and i = "''Q''" and question = "Some question_Q"]
  show ?thesis
    by (simp add: example_defs query_defs)
qed

section \<open>Errors of the derivation and the triggering statement\<close>

lemma insert_rejected:
  "insert_notification chk n db = Inl e \<Longrightarrow> e = Notification_rejected \<and> \<not> chk n"
  by (simp add: insert_notification_def split: if_splits)

lemma create_answer_error:
  "create_answer_notification chk db a = Inl e \<Longrightarrow>
     e = Notification_rejected \<and> \<not> chk (answer_notification db a)"
  unfolding create_answer_notification_def Let_def
  by (auto split: if_splits sum.splits dest: insert_rejected)

lemma create_vote_error:
  "create_vote_notification chk db v = Inl e \<Longrightarrow>
     e = Notification_rejected \<and> \<not> chk (vote_notification db v)"
  unfolding create_vote_notification_def Let_def
  by (auto split: if_splits sum.splits dest: insert_rejected)

lemma create_comment_error:
  "create_comment_notification chk db c = Inl e \<Longrightarrow>
     e = Notification_rejected \<and> \<not> chk (comment_notification db c)"
  unfolding create_comment_notification_def Let_def
  by (auto split: if_splits sum.splits dest: insert_rejected)

lemma create_accept_error:
  "create_accept_notification chk db old new = Inl e \<Longrightarrow>
     e = Notification_rejected \<and> \<not> chk (accept_notification db new)"
  unfolding create_accept_notification_def Let_def
  by (auto split: if_splits sum.splits dest: insert_rejected)

lemma insert_vote_ok:
  assumes "create_vote_notification chk (db\<lparr>votes := votes db @ [v]\<rparr>) v = Inr (db', r)"
  shows "insert_vote chk v db = (None, db') \<and> votes db' = votes db @ [v]"
  using assms adds_at_most_one_tables [of "db\<lparr>votes := votes db @ [v]\<rparr>" db']
    create_vote_frame [OF assms]
  by (simp add: insert_vote_def)

text \<open>
  Whether the accept function raises depends on the database only through the \<open>answers\<close>
  table, which no trigger function writes: a row whose function raises on the database
  the update leaves makes the update fail, whatever the rows handled before it wrote.
\<close>

lemma select_answer_author_answers:
  "answers db' = answers db \<Longrightarrow> select_answer_author db' = select_answer_author db"
  by (rule ext) (simp add: select_answer_author_def)

lemma create_accept_raises_cong:
  assumes "create_accept_notification chk db old new = Inl e"
    and "answers db' = answers db"
  shows "create_accept_notification chk db' old new = Inl e"
proof -
  note authors = select_answer_author_answers [OF assms(2)]
  have same: "accept_notification db' new = accept_notification db new"
    by (simp add: accept_notification_def authors)
  from create_accept_error [OF assms(1)]
  have e: "e = Notification_rejected" and rejected: "\<not> chk (accept_notification db new)"
    by simp_all
  from assms(1) have "branch_taken (accepted_changed old new)"
    and "branch_taken (sql_ne (Option.bind (q_accepted_answer_id new) (select_answer_author db))
           (Some (q_user_id new)))"
    by (auto simp: create_accept_notification_def Let_def split: if_splits)
  with rejected same e show ?thesis
    by (simp add: create_accept_notification_def insert_notification_def authors)
qed

lemma fire_accept_raises:
  assumes "(old, new) \<in> set rows"
    and "create_accept_notification chk db old new = Inl e"
  shows "fire_accept chk rows db = Inl e"
  using assms
proof (induction rows arbitrary: db)
  case Nil
  then show ?case by simp
next
  case (Cons row rows)
  obtain o1 n1 where row: "row = (o1, n1)"
    by (cases row)
  from create_accept_error [OF Cons.prems(2)] have e: "e = Notification_rejected"
    by simp
  show ?case
  proof (cases "create_accept_notification chk db o1 n1")
    case (Inl e1)
    from create_accept_error [OF Inl] have "e1 = Notification_rejected"
      by simp
    with Inl row e show ?thesis
      by simp
  next
    case (Inr res)
    obtain db1 r where res: "res = (db1, r)"
      by (cases res)
    with Inr have first: "create_accept_notification chk db o1 n1 = Inr (db1, r)"
      by simp
    with Cons.prems(2) have "(old, new) \<noteq> (o1, n1)"
      by auto
    with Cons.prems(1) row have later: "(old, new) \<in> set rows"
      by auto
    from create_accept_tables [OF first] have "answers db1 = answers db"
      by simp
    with Cons.prems(2) have "create_accept_notification chk db1 old new = Inl e"
      by (rule create_accept_raises_cong)
    with later have "fire_accept chk rows db1 = Inl e"
      by (rule Cons.IH)
    with first row show ?thesis
      by simp
  qed
qed

lemma update_questions_raises:
  assumes "q \<in> set (questions db)" and "p q"
    and "create_accept_notification chk
           (db\<lparr>questions := map (\<lambda>q. if p q then f q else q) (questions db)\<rparr>) q (f q) = Inl e"
  shows "update_questions chk p f db = (Some e, db)"
proof -
  from assms(1,2) have "(q, f q) \<in> set [(q, f q). q \<leftarrow> questions db, p q]"
    by auto
  from fire_accept_raises [OF this assms(3)] show ?thesis
    by (simp add: update_questions_def)
qed

lemma update_questions_failure:
  "update_questions chk p f db = (Some e, db') \<Longrightarrow> db' = db"
  unfolding update_questions_def by (auto split: sum.splits)

text \<open>
  C7, as the code has it. No trigger function handles an error. When the function
  raises, which it does only when the \<open>INSERT\<close> into \<open>notifications\<close> raises, the
  triggering statement (the insert of the answer, vote or comment, the update of the
  question) fails with that error and leaves the database it started from: the primary
  write is undone with it, not kept.
\<close>

theorem derivation_error_fails_statement:
  "(create_answer_notification chk (db\<lparr>answers := answers db @ [a]\<rparr>) a = Inl e \<longrightarrow>
      \<not> chk (answer_notification (db\<lparr>answers := answers db @ [a]\<rparr>) a) \<and>
      insert_answer chk a db = (Some e, db)) \<and>
   (create_vote_notification chk (db\<lparr>votes := votes db @ [v]\<rparr>) v = Inl e \<longrightarrow>
      \<not> chk (vote_notification (db\<lparr>votes := votes db @ [v]\<rparr>) v) \<and>
      insert_vote chk v db = (Some e, db)) \<and>
   (comments_insert_policy auth_uid c \<and> comments_has_target c \<and> comments_pkey db c \<and>
    create_comment_notification chk (db\<lparr>comments := comments db @ [c]\<rparr>) c = Inl e \<longrightarrow>
      \<not> chk (comment_notification (db\<lparr>comments := comments db @ [c]\<rparr>) c) \<and>
      insert_comment chk auth_uid c db = (Some e, db)) \<and>
   (q \<in> set (questions db) \<and> p q \<and>
    create_accept_notification chk
      (db\<lparr>questions := map (\<lambda>q. if p q then f q else q) (questions db)\<rparr>) q (f q) = Inl e \<longrightarrow>
      \<not> chk (accept_notification
               (db\<lparr>questions := map (\<lambda>q. if p q then f q else q) (questions db)\<rparr>) (f q)) \<and>
      update_questions chk p f db = (Some e, db)) \<and>
   (update_questions chk p f db = (Some e, dbq) \<longrightarrow> dbq = db)"
proof (intro conjI impI)
  assume h: "create_answer_notification chk (db\<lparr>answers := answers db @ [a]\<rparr>) a = Inl e"
  from create_answer_error [OF h]
  show "\<not> chk (answer_notification (db\<lparr>answers := answers db @ [a]\<rparr>) a)"
    by simp
  from h show "insert_answer chk a db = (Some e, db)"
    by (simp add: insert_answer_def)
next
  assume h: "create_vote_notification chk (db\<lparr>votes := votes db @ [v]\<rparr>) v = Inl e"
  from create_vote_error [OF h]
  show "\<not> chk (vote_notification (db\<lparr>votes := votes db @ [v]\<rparr>) v)"
    by simp
  from h show "insert_vote chk v db = (Some e, db)"
    by (simp add: insert_vote_def)
next
  assume h: "comments_insert_policy auth_uid c \<and> comments_has_target c \<and> comments_pkey db c \<and>
    create_comment_notification chk (db\<lparr>comments := comments db @ [c]\<rparr>) c = Inl e"
  then have err: "create_comment_notification chk (db\<lparr>comments := comments db @ [c]\<rparr>) c = Inl e"
    by simp
  from create_comment_error [OF err]
  show "\<not> chk (comment_notification (db\<lparr>comments := comments db @ [c]\<rparr>) c)"
    by simp
  from h show "insert_comment chk auth_uid c db = (Some e, db)"
    by (simp add: insert_comment_def)
next
  assume h: "q \<in> set (questions db) \<and> p q \<and>
    create_accept_notification chk
      (db\<lparr>questions := map (\<lambda>q. if p q then f q else q) (questions db)\<rparr>) q (f q) = Inl e"
  then have row: "q \<in> set (questions db)" "p q"
    and err: "create_accept_notification chk
      (db\<lparr>questions := map (\<lambda>q. if p q then f q else q) (questions db)\<rparr>) q (f q) = Inl e"
    by simp_all
  from create_accept_error [OF err]
  show "\<not> chk (accept_notification
               (db\<lparr>questions := map (\<lambda>q. if p q then f q else q) (questions db)\<rparr>) (f q))"
    by simp
  from row err show "update_questions chk p f db = (Some e, db)"
    by (rule update_questions_raises)
next
  assume "update_questions chk p f db = (Some e, dbq)"
  then show "dbq = db"
    by (rule update_questions_failure)
qed

text \<open>
  C7, as stated, fails. B answers A's question while the \<open>INSERT\<close> into \<open>notifications\<close>
  raises: the answer function raises, and the insert of the answer returns the error and
  leaves the database without the answer.
\<close>

theorem derivation_error_not_swallowed:
  "create_answer_notification rejects_all
     (store0\<lparr>answers := answers store0 @ [answer_R3]\<rparr>) answer_R3 = Inl Notification_rejected \<and>
   insert_answer rejects_all answer_R3 store0 = (Some Notification_rejected, store0) \<and>
   answer_R3 \<notin> set (answers store0)"
  by (simp add: insert_answer_def create_answer_notification_def insert_notification_def
      branch_taken_ne example_defs query_defs)

theorem derivation_error_fails_statement_witness:
  "insert_answer rejects_all answer_R3 store0 = (Some Notification_rejected, store0) \<and>
   insert_vote rejects_all (vote_on_R1 ''A'' 1) store0 = (Some Notification_rejected, store0) \<and>
   insert_comment rejects_all (Some ''B'') (comment_on_Q ''B'') store0 =
     (Some Notification_rejected, store0) \<and>
   accept_update rejects_all ''Q'' ''R1'' store0 = (Some Notification_rejected, store0)"
proof -
  let ?v = "vote_on_R1 ''A'' 1"
  let ?c = "comment_on_Q ''B''"
  let ?p = "\<lambda>q. q_id q = ''Q''"
  let ?f = "\<lambda>q. q\<lparr>q_accepted_answer_id := Some ''R1'', q_is_answered := True\<rparr>"
  note trigger_defs = create_answer_notification_def create_vote_notification_def
    create_comment_notification_def create_accept_notification_def insert_notification_def
    branch_taken_ne branch_taken_not_null_ne branch_taken_accepted_changed
  have a_err: "create_answer_notification rejects_all
      (store0\<lparr>answers := answers store0 @ [answer_R3]\<rparr>) answer_R3 = Inl Notification_rejected"
    by (simp add: trigger_defs example_defs query_defs)
  have v_err: "create_vote_notification rejects_all (store0\<lparr>votes := votes store0 @ [?v]\<rparr>) ?v =
      Inl Notification_rejected"
    by (simp add: trigger_defs example_defs query_defs)
  have c_pre: "comments_insert_policy (Some ''B'') ?c \<and> comments_has_target ?c \<and>
      comments_pkey store0 ?c"
    by (simp add: comments_insert_policy_def comments_has_target_def comments_pkey_def
        branch_taken_def sql_eq_def example_defs)
  have c_err: "create_comment_notification rejects_all
      (store0\<lparr>comments := comments store0 @ [?c]\<rparr>) ?c = Inl Notification_rejected"
    by (simp add: trigger_defs example_defs query_defs)
  have q_row: "question_Q \<in> set (questions store0) \<and> ?p question_Q"
    by (simp add: example_defs)
  have q_err: "create_accept_notification rejects_all
      (store0\<lparr>questions := map (\<lambda>q. if ?p q then ?f q else q) (questions store0)\<rparr>)
      question_Q (?f question_Q) = Inl Notification_rejected"
    by (simp add: trigger_defs example_defs query_defs)
  from a_err v_err c_pre c_err q_row q_err
    derivation_error_fails_statement [where chk = rejects_all and db = store0
      and a = answer_R3 and v = ?v and c = ?c and auth_uid = "Some ''B''"
      and e = Notification_rejected and q = question_Q and p = ?p and f = ?f]
  have "insert_answer rejects_all answer_R3 store0 = (Some Notification_rejected, store0) \<and>
      insert_vote rejects_all ?v store0 = (Some Notification_rejected, store0) \<and>
      insert_comment rejects_all (Some ''B'') ?c store0 = (Some Notification_rejected, store0) \<and>
      update_questions rejects_all ?p ?f store0 = (Some Notification_rejected, store0)"
    by blast
  then show ?thesis
    by (simp add: accept_update_def)
qed

section \<open>Rows that refer to missing content\<close>

lemma create_answer_missing:
  assumes "\<forall>q\<in>set (questions db). q_id q \<noteq> a_question_id a"
  shows "create_answer_notification chk db a = Inr (db, a)"
proof -
  from assms have "select_question db (a_question_id a) = None"
    by (simp add: select_question_None)
  then show ?thesis
    by (simp add: create_answer_notification_def branch_taken_ne)
qed

lemma create_accept_missing:
  assumes "\<forall>a\<in>set (answers db). Some (a_id a) \<noteq> q_accepted_answer_id new"
  shows "create_accept_notification chk db old new = Inr (db, new)"
proof -
  from assms have "Option.bind (q_accepted_answer_id new) (select_answer_author db) = None"
    by (cases "q_accepted_answer_id new") (auto simp: select_answer_author_None)
  then show ?thesis
    by (simp add: create_accept_notification_def branch_taken_ne)
qed

lemma create_vote_missing:
  assumes "target_missing db (v_question_id v) (v_answer_id v)"
  shows "create_vote_notification chk db v = Inr (db, v)"
proof -
  from assms have "fst (vote_content db v) = None"
    by (auto simp: target_missing_def fst_vote_content select_question_None
        select_answer_join_None split: option.splits)
  then show ?thesis
    by (simp add: create_vote_notification_def branch_taken_not_null_ne)
qed

lemma create_comment_missing:
  assumes "target_missing db (c_question_id c) (c_answer_id c)"
  shows "create_comment_notification chk db c = Inr (db, c)"
proof -
  from assms have "fst (comment_target db c) = None"
    by (auto simp: target_missing_def comment_target_cases select_question_None
        select_answer_join_None split: option.splits)
  then show ?thesis
    by (simp add: create_comment_notification_def branch_taken_not_null_ne)
qed

lemma fire_accept_missing:
  assumes "\<forall>a\<in>set (answers db). a_id a \<noteq> k"
    and "\<forall>(old, new)\<in>set rows. q_accepted_answer_id new = Some k"
  shows "fire_accept chk rows db = Inr db"
  using assms(2)
proof (induction rows)
  case Nil
  then show ?case by simp
next
  case (Cons row rows)
  obtain old new where row: "row = (old, new)"
    by (cases row)
  with Cons.prems have "q_accepted_answer_id new = Some k"
    by simp
  with assms(1) have "\<forall>a\<in>set (answers db). Some (a_id a) \<noteq> q_accepted_answer_id new"
    by simp
  then have "create_accept_notification chk db old new = Inr (db, new)"
    by (rule create_accept_missing)
  with Cons row show ?case
    by simp
qed

lemma accept_update_missing:
  assumes "\<forall>a\<in>set (answers db). a_id a \<noteq> k"
  shows "accept_update chk i k db =
           (None, db\<lparr>questions :=
              map (\<lambda>q. if q_id q = i
                        then q\<lparr>q_accepted_answer_id := Some k, q_is_answered := True\<rparr> else q)
                (questions db)\<rparr>)"
proof -
  let ?f = "\<lambda>q. q\<lparr>q_accepted_answer_id := Some k, q_is_answered := True\<rparr>"
  let ?db1 = "db\<lparr>questions := map (\<lambda>q. if q_id q = i then ?f q else q) (questions db)\<rparr>"
  from assms have "\<forall>a\<in>set (answers ?db1). a_id a \<noteq> k"
    by simp
  moreover have "\<forall>(old, new)\<in>set [(q, ?f q). q \<leftarrow> questions db, q_id q = i].
      q_accepted_answer_id new = Some k"
    by auto
  ultimately have "fire_accept chk [(q, ?f q). q \<leftarrow> questions db, q_id q = i] ?db1 = Inr ?db1"
    by (rule fire_accept_missing)
  then show ?thesis
    by (simp add: accept_update_def update_questions_def)
qed

text \<open>
  C5. When the content a row refers to is not in the database (the parent question of an
  answer; the answer newly accepted; the question or answer voted or commented on, or
  the question of that answer), each trigger function returns normally and leaves the
  database unchanged, and the statement that fired it succeeds with the row written and
  no notification added (for a comment, when the row passes the insert policy, the
  \<open>CHECK\<close> and the primary key of the \<open>comments\<close> table). The answer and accept functions have no \<open>IS NOT NULL\<close> test:
  their comparison with the NULL owner is NULL, and the branch is not taken.
\<close>

theorem missing_target_is_silent:
  "((\<forall>q\<in>set (questions db). q_id q \<noteq> a_question_id a) \<longrightarrow>
      create_answer_notification chk db a = Inr (db, a) \<and>
      insert_answer chk a db = (None, db\<lparr>answers := answers db @ [a]\<rparr>)) \<and>
   ((\<forall>a\<in>set (answers db). Some (a_id a) \<noteq> q_accepted_answer_id new) \<longrightarrow>
      create_accept_notification chk db old new = Inr (db, new)) \<and>
   ((\<forall>a\<in>set (answers db). a_id a \<noteq> k) \<longrightarrow>
      accept_update chk i k db =
        (None, db\<lparr>questions :=
           map (\<lambda>q. if q_id q = i
                     then q\<lparr>q_accepted_answer_id := Some k, q_is_answered := True\<rparr> else q)
             (questions db)\<rparr>)) \<and>
   (target_missing db (v_question_id v) (v_answer_id v) \<longrightarrow>
      create_vote_notification chk db v = Inr (db, v) \<and>
      insert_vote chk v db = (None, db\<lparr>votes := votes db @ [v]\<rparr>)) \<and>
   (target_missing db (c_question_id c) (c_answer_id c) \<longrightarrow>
      create_comment_notification chk db c = Inr (db, c) \<and>
      (comments_insert_policy auth_uid c \<and> comments_has_target c \<and> comments_pkey db c \<longrightarrow>
         insert_comment chk auth_uid c db = (None, db\<lparr>comments := comments db @ [c]\<rparr>)))"
proof (intro conjI impI)
  assume h: "\<forall>q\<in>set (questions db). q_id q \<noteq> a_question_id a"
  then show "create_answer_notification chk db a = Inr (db, a)"
    by (rule create_answer_missing)
  from h have "\<forall>q\<in>set (questions (db\<lparr>answers := answers db @ [a]\<rparr>)). q_id q \<noteq> a_question_id a"
    by simp
  from create_answer_missing [OF this]
  show "insert_answer chk a db = (None, db\<lparr>answers := answers db @ [a]\<rparr>)"
    by (simp add: insert_answer_def)
next
  assume "\<forall>a\<in>set (answers db). Some (a_id a) \<noteq> q_accepted_answer_id new"
  then show "create_accept_notification chk db old new = Inr (db, new)"
    by (rule create_accept_missing)
next
  assume "\<forall>a\<in>set (answers db). a_id a \<noteq> k"
  then show "accept_update chk i k db =
        (None, db\<lparr>questions :=
           map (\<lambda>q. if q_id q = i
                     then q\<lparr>q_accepted_answer_id := Some k, q_is_answered := True\<rparr> else q)
             (questions db)\<rparr>)"
    by (rule accept_update_missing)
next
  assume h: "target_missing db (v_question_id v) (v_answer_id v)"
  then show "create_vote_notification chk db v = Inr (db, v)"
    by (rule create_vote_missing)
  from h have "target_missing (db\<lparr>votes := votes db @ [v]\<rparr>) (v_question_id v) (v_answer_id v)"
    by (simp add: target_missing_def cong: option.case_cong)
  from create_vote_missing [OF this]
  show "insert_vote chk v db = (None, db\<lparr>votes := votes db @ [v]\<rparr>)"
    by (simp add: insert_vote_def)
next
  assume h: "target_missing db (c_question_id c) (c_answer_id c)"
  then show "create_comment_notification chk db c = Inr (db, c)"
    by (rule create_comment_missing)
  assume target: "comments_insert_policy auth_uid c \<and> comments_has_target c \<and>
    comments_pkey db c"
  from h have "target_missing (db\<lparr>comments := comments db @ [c]\<rparr>) (c_question_id c)
      (c_answer_id c)"
    by (simp add: target_missing_def cong: option.case_cong)
  from create_comment_missing [OF this] target
  show "insert_comment chk auth_uid c db = (None, db\<lparr>comments := comments db @ [c]\<rparr>)"
    by (simp add: insert_comment_def)
qed

theorem missing_target_is_silent_witness:
  "insert_answer no_constraints (answer_R1\<lparr>a_question_id := ''Q9''\<rparr>) store0 =
     (None, store0\<lparr>answers := [answer_R1, answer_R2, answer_R1\<lparr>a_question_id := ''Q9''\<rparr>]\<rparr>) \<and>
   create_accept_notification no_constraints store0 question_Q
     (question_Q\<lparr>q_accepted_answer_id := Some ''R9''\<rparr>) =
     Inr (store0, question_Q\<lparr>q_accepted_answer_id := Some ''R9''\<rparr>) \<and>
   accept_update no_constraints ''Q'' ''R9'' store0 =
     (None, store0\<lparr>questions :=
        [question_Q\<lparr>q_accepted_answer_id := Some ''R9'', q_is_answered := True\<rparr>]\<rparr>) \<and>
   insert_vote no_constraints (vote_on_Q ''B'' 1\<lparr>v_question_id := Some ''Q9''\<rparr>) store0 =
     (None, store0\<lparr>votes := [vote_on_Q ''B'' 1\<lparr>v_question_id := Some ''Q9''\<rparr>]\<rparr>) \<and>
   insert_comment no_constraints (Some ''A'') (comment_on_R1 ''A''\<lparr>c_answer_id := Some ''R9''\<rparr>)
     store0 =
     (None, store0\<lparr>comments := [comment_on_R1 ''A''\<lparr>c_answer_id := Some ''R9''\<rparr>]\<rparr>)"
proof -
  let ?a = "answer_R1\<lparr>a_question_id := ''Q9''\<rparr>"
  let ?new = "question_Q\<lparr>q_accepted_answer_id := Some ''R9''\<rparr>"
  let ?v = "vote_on_Q ''B'' 1\<lparr>v_question_id := Some ''Q9''\<rparr>"
  let ?c = "comment_on_R1 ''A''\<lparr>c_answer_id := Some ''R9''\<rparr>"
  have a: "\<forall>q\<in>set (questions store0). q_id q \<noteq> a_question_id ?a"
    by (simp add: example_defs)
  have q: "\<forall>a\<in>set (answers store0). Some (a_id a) \<noteq> q_accepted_answer_id ?new"
    by (simp add: example_defs)
  have u: "\<forall>a\<in>set (answers store0). a_id a \<noteq> ''R9''"
    by (simp add: example_defs)
  have v: "target_missing store0 (v_question_id ?v) (v_answer_id ?v)"
    by (simp add: target_missing_def example_defs)
  have c: "target_missing store0 (c_question_id ?c) (c_answer_id ?c)"
    by (simp add: target_missing_def example_defs)
  have target: "comments_insert_policy (Some ''A'') ?c \<and> comments_has_target ?c \<and>
      comments_pkey store0 ?c"
    by (simp add: comments_insert_policy_def comments_has_target_def comments_pkey_def
        branch_taken_def sql_eq_def example_defs)
  from a q u v c target
    missing_target_is_silent [where db = store0 and chk = no_constraints and a = ?a
      and old = question_Q and new = ?new and i = "''Q''" and k = "''R9''" and v = ?v and c = ?c
      and auth_uid = "Some ''A''"]
  have "insert_answer no_constraints ?a store0 =
        (None, store0\<lparr>answers := answers store0 @ [?a]\<rparr>) \<and>
      create_accept_notification no_constraints store0 question_Q ?new = Inr (store0, ?new) \<and>
      accept_update no_constraints ''Q'' ''R9'' store0 =
        (None, store0\<lparr>questions :=
           map (\<lambda>q. if q_id q = ''Q''
                     then q\<lparr>q_accepted_answer_id := Some ''R9'', q_is_answered := True\<rparr> else q)
             (questions store0)\<rparr>) \<and>
      insert_vote no_constraints ?v store0 = (None, store0\<lparr>votes := votes store0 @ [?v]\<rparr>) \<and>
      insert_comment no_constraints (Some ''A'') ?c store0 =
        (None, store0\<lparr>comments := comments store0 @ [?c]\<rparr>)"
    by blast
  then show ?thesis
    by (simp add: example_defs)
qed

section \<open>Votes of the question page\<close>

lemma single_None_short: "single rows = None \<Longrightarrow> length rows \<le> 1 \<Longrightarrow> rows = []"
  by (cases rows) (auto simp: single_def split: list.splits)

lemma insert_vote_votes:
  "votes (snd (insert_vote chk v db)) = votes db \<or>
   votes (snd (insert_vote chk v db)) = votes db @ [v]"
proof (cases "create_vote_notification chk (db\<lparr>votes := votes db @ [v]\<rparr>) v")
  case (Inl e)
  then show ?thesis by (simp add: insert_vote_def)
next
  case (Inr res)
  then obtain db' r where
    "create_vote_notification chk (db\<lparr>votes := votes db @ [v]\<rparr>) v = Inr (db', r)"
    by (cases res) simp
  from insert_vote_ok [OF this] show ?thesis by simp
qed

lemma existing_votes_new_vote:
  "existing_votes (db\<lparr>votes := votes db @ [new_vote i uid t k d]\<rparr>) uid' t' k' =
     existing_votes db uid' t' k' @
       (if uid' = uid \<and> t' = t \<and> k' = k then [new_vote i uid t k d] else [])"
  by (cases t; cases t') (auto simp: existing_votes_def new_vote_def)

lemma existing_votes_delete:
  "existing_votes (db\<lparr>votes := filter P (votes db)\<rparr>) uid t k =
     filter P (existing_votes db uid t k)"
  by (auto simp: existing_votes_def intro: filter_cong)

lemma existing_votes_retype:
  "existing_votes (db\<lparr>votes := map (\<lambda>v. if P v then v\<lparr>v_vote_type := d\<rparr> else v) (votes db)\<rparr>)
     uid t k =
   map (\<lambda>v. if P v then v\<lparr>v_vote_type := d\<rparr> else v) (existing_votes db uid t k)"
  by (cases t) (auto simp: existing_votes_def filter_map comp_def intro!: arg_cong2 [where f = map] filter_cong)

lemma handleVote_keeps_one:
  assumes inv: "one_vote_per_target db"
  shows "one_vote_per_target (handleVote chk user new_id t k d db)"
proof (cases user)
  case None
  with inv show ?thesis by (simp add: handleVote_def)
next
  case (Some uid)
  show ?thesis
  proof (cases "single (existing_votes db uid t k)")
    case found: (Some e)
    show ?thesis
    proof (cases "v_vote_type e = d")
      case True
      with Some found have "handleVote chk user new_id t k d db =
          db\<lparr>votes := filter (\<lambda>v. v_id v \<noteq> v_id e) (votes db)\<rparr>"
        by (simp add: handleVote_def)
      moreover have "length (filter (\<lambda>v. v_id v \<noteq> v_id e) (existing_votes db uid' t' k')) \<le> 1"
        for uid' t' k'
      proof -
        have "length (filter (\<lambda>v. v_id v \<noteq> v_id e) (existing_votes db uid' t' k')) \<le>
            length (existing_votes db uid' t' k')"
          by (rule length_filter_le)
        also from inv have "\<dots> \<le> 1"
          by (simp add: one_vote_per_target_def)
        finally show ?thesis .
      qed
      ultimately show ?thesis
        by (simp add: one_vote_per_target_def existing_votes_delete)
    next
      case False
      with Some found have "handleVote chk user new_id t k d db =
          db\<lparr>votes := map (\<lambda>v. if v_id v = v_id e then v\<lparr>v_vote_type := d\<rparr> else v) (votes db)\<rparr>"
        by (simp add: handleVote_def)
      with inv show ?thesis
        by (simp add: one_vote_per_target_def existing_votes_retype)
    qed
  next
    case None
    from inv have "length (existing_votes db uid t k) \<le> 1"
      by (simp add: one_vote_per_target_def)
    with None have none: "existing_votes db uid t k = []"
      by (rule single_None_short)
    let ?v = "new_vote new_id uid t k d"
    from Some None have step: "handleVote chk user new_id t k d db = snd (insert_vote chk ?v db)"
      by (simp add: handleVote_def)
    from insert_vote_votes [of chk ?v db] show ?thesis
    proof
      assume "votes (snd (insert_vote chk ?v db)) = votes db"
      with inv step show ?thesis
        by (simp add: one_vote_per_target_def existing_votes_def)
    next
      assume added: "votes (snd (insert_vote chk ?v db)) = votes db @ [?v]"
      have "existing_votes (snd (insert_vote chk ?v db)) uid' t' k' =
          existing_votes (db\<lparr>votes := votes db @ [?v]\<rparr>) uid' t' k'" for uid' t' k'
        using added by (simp add: existing_votes_def)
      with inv none step show ?thesis
        by (auto simp: one_vote_per_target_def existing_votes_new_vote)
    qed
  qed
qed

lemma handle_votes_keep_one:
  "one_vote_per_target db \<Longrightarrow> one_vote_per_target (handle_votes chk calls db)"
proof (induction calls arbitrary: db)
  case Nil
  then show ?case by simp
next
  case (Cons call calls)
  obtain user new_id t k d where call: "call = (user, new_id, t, k, d)"
    by (cases call)
  from Cons.prems have "one_vote_per_target (handleVote chk user new_id t k d db)"
    by (rule handleVote_keeps_one)
  then show ?case
    unfolding call by (simp add: Cons.IH)
qed

lemma handleVote_again:
  assumes "existing_votes db uid t k = [e]"
  shows "(v_vote_type e = d \<longrightarrow>
            existing_votes (handleVote chk (Some uid) new_id t k d db) uid t k = []) \<and>
         (v_vote_type e \<noteq> d \<longrightarrow>
            existing_votes (handleVote chk (Some uid) new_id t k d db) uid t k =
              [e\<lparr>v_vote_type := d\<rparr>]) \<and>
         length (votes (handleVote chk (Some uid) new_id t k d db)) \<le> length (votes db)"
  using assms
  by (simp add: handleVote_def single_def existing_votes_delete existing_votes_retype)

text \<open>
  C9. If no user has more than one vote row on a target, then the same holds after any
  run of \<open>handleVote\<close> calls (in particular from an empty \<open>votes\<close> table). When the user
  has one vote \<open>e\<close> on the target, a further call by that user on that target with the
  same direction leaves the user without a vote there, a call with the other direction
  leaves exactly \<open>e\<close> with the new direction, and neither adds a row.
\<close>

theorem one_vote_per_user_and_target:
  "(one_vote_per_target db \<longrightarrow> one_vote_per_target (handle_votes chk calls db)) \<and>
   (votes db = [] \<longrightarrow> one_vote_per_target (handle_votes chk calls db)) \<and>
   (existing_votes db uid t k = [e] \<longrightarrow>
      (v_vote_type e = d \<longrightarrow>
         existing_votes (handleVote chk (Some uid) new_id t k d db) uid t k = []) \<and>
      (v_vote_type e \<noteq> d \<longrightarrow>
         existing_votes (handleVote chk (Some uid) new_id t k d db) uid t k =
           [e\<lparr>v_vote_type := d\<rparr>]) \<and>
      length (votes (handleVote chk (Some uid) new_id t k d db)) \<le> length (votes db))"
proof (intro conjI impI)
  assume "one_vote_per_target db"
  then show "one_vote_per_target (handle_votes chk calls db)"
    by (rule handle_votes_keep_one)
next
  assume "votes db = []"
  then have "one_vote_per_target db"
    by (simp add: one_vote_per_target_def existing_votes_def)
  then show "one_vote_per_target (handle_votes chk calls db)"
    by (rule handle_votes_keep_one)
next
  assume h: "existing_votes db uid t k = [e]"
  { assume "v_vote_type e = d"
    with handleVote_again [OF h, of d chk new_id]
    show "existing_votes (handleVote chk (Some uid) new_id t k d db) uid t k = []"
      by simp }
  { assume "v_vote_type e \<noteq> d"
    with handleVote_again [OF h, of d chk new_id]
    show "existing_votes (handleVote chk (Some uid) new_id t k d db) uid t k =
        [e\<lparr>v_vote_type := d\<rparr>]"
      by simp }
  from handleVote_again [OF h, of d chk new_id]
  show "length (votes (handleVote chk (Some uid) new_id t k d db)) \<le> length (votes db)"
    by simp
qed

theorem one_vote_per_user_and_target_witness:
  "one_vote_per_target store0 \<and> votes store0 = [] \<and>
   one_vote_per_target
     (handle_votes no_constraints
        [(Some ''B'', ''V1'', Question, ''Q'', 1), (Some ''B'', ''V2'', Question, ''Q'', - 1),
         (Some ''A'', ''V3'', Answer, ''R1'', 1)] store0) \<and>
   votes (handle_votes no_constraints
        [(Some ''B'', ''V1'', Question, ''Q'', 1), (Some ''B'', ''V2'', Question, ''Q'', - 1),
         (Some ''A'', ''V3'', Answer, ''R1'', 1)] store0) =
     [vote_on_Q ''B'' (- 1), new_vote ''V3'' ''A'' Answer ''R1'' 1] \<and>
   existing_votes (store0\<lparr>votes := [vote_on_Q ''B'' 1]\<rparr>) ''B'' Question ''Q'' =
     [vote_on_Q ''B'' 1] \<and>
   existing_votes (handleVote no_constraints (Some ''B'') ''V2'' Question ''Q'' 1
      (store0\<lparr>votes := [vote_on_Q ''B'' 1]\<rparr>)) ''B'' Question ''Q'' = [] \<and>
   existing_votes (handleVote no_constraints (Some ''B'') ''V2'' Question ''Q'' (- 1)
      (store0\<lparr>votes := [vote_on_Q ''B'' 1]\<rparr>)) ''B'' Question ''Q'' = [vote_on_Q ''B'' (- 1)]"
proof -
  let ?calls = "[(Some ''B'', ''V1'', Question, ''Q'', 1), (Some ''B'', ''V2'', Question, ''Q'', - 1),
         (Some ''A'', ''V3'', Answer, ''R1'', 1)]"
  let ?db = "store0\<lparr>votes := [vote_on_Q ''B'' 1]\<rparr>"
  have empty: "votes store0 = []"
    by (simp add: example_defs)
  then have one: "one_vote_per_target store0"
    by (simp add: one_vote_per_target_def existing_votes_def)
  have prior: "existing_votes ?db ''B'' Question ''Q'' = [vote_on_Q ''B'' 1]"
    by (simp add: existing_votes_def example_defs)
  have same: "v_vote_type (vote_on_Q ''B'' 1) = 1"
    and other: "v_vote_type (vote_on_Q ''B'' 1) \<noteq> - 1"
    by (simp_all add: example_defs)
  have run: "votes (handle_votes no_constraints ?calls store0) =
      [vote_on_Q ''B'' (- 1), new_vote ''V3'' ''A'' Answer ''R1'' 1]"
    by (simp add: handleVote_def existing_votes_def single_def new_vote_def insert_vote_def
        create_vote_notification_def insert_notification_def branch_taken_not_null_ne
        example_defs query_defs)
  from one empty
    one_vote_per_user_and_target [where db = store0 and chk = no_constraints and calls = ?calls]
  have kept: "one_vote_per_target (handle_votes no_constraints ?calls store0)"
    by blast
  from prior same
    one_vote_per_user_and_target [where db = ?db and chk = no_constraints and uid = "''B''"
      and t = Question and k = "''Q''" and e = "vote_on_Q ''B'' 1" and d = 1
      and new_id = "''V2''"]
  have cancelled: "existing_votes (handleVote no_constraints (Some ''B'') ''V2'' Question ''Q'' 1 ?db)
      ''B'' Question ''Q'' = []"
    by blast
  from prior other
    one_vote_per_user_and_target [where db = ?db and chk = no_constraints and uid = "''B''"
      and t = Question and k = "''Q''" and e = "vote_on_Q ''B'' 1" and d = "- 1"
      and new_id = "''V2''"]
  have replaced: "existing_votes (handleVote no_constraints (Some ''B'') ''V2'' Question ''Q'' (- 1) ?db)
      ''B'' Question ''Q'' = [vote_on_Q ''B'' 1\<lparr>v_vote_type := - 1\<rparr>]"
    by blast
  from one empty kept run prior cancelled replaced show ?thesis
    by (simp add: vote_on_Q_def)
qed

section \<open>The accepted flags\<close>









end
